theory Spec2Isabelle
  imports Main "HOL-Library.Option_ord"
begin

section \<open>Python strings\<close>

text \<open>
  A Python \<open>str\<close> is modelled as a \<open>string\<close>; a \<open>char\<close> stands for the code point
  of the same number, so this model covers the code points below 256. \<open>str.strip()\<close>
  removes the characters for which \<open>str.isspace()\<close> holds from both ends; below 256
  these are the code points 9 to 13, 28 to 32, 133 and 160.
\<close>

definition py_isspace :: "char \<Rightarrow> bool" where
  "py_isspace c =
     (let n = (of_char c :: nat)
      in (9 \<le> n \<and> n \<le> 13) \<or> (28 \<le> n \<and> n \<le> 32) \<or> n = 133 \<or> n = 160)"

definition lstrip :: "string \<Rightarrow> string" where
  "lstrip s = dropWhile py_isspace s"

definition rstrip :: "string \<Rightarrow> string" where
  "rstrip s = rev (dropWhile py_isspace (rev s))"

definition strip :: "string \<Rightarrow> string" where
  "strip s = rstrip (lstrip s)"

text \<open>Truthiness of a string: the empty string is false.\<close>

definition truthy :: "string \<Rightarrow> bool" where
  "truthy s = (s \<noteq> [])"

subsection \<open>Decimal digits and \<open>str(int)\<close>\<close>

definition digit_char :: "nat \<Rightarrow> char" where
  "digit_char n = ''0123456789'' ! (n mod 10)"

definition is_digit :: "char \<Rightarrow> bool" where
  "is_digit c = (c \<in> set ''0123456789'')"

definition digit_val :: "char \<Rightarrow> nat" where
  "digit_val c = of_char c - 48"

fun show_nat :: "nat \<Rightarrow> string" where
  "show_nat n = (if n < 10 then [digit_char n] else show_nat (n div 10) @ [digit_char n])"

declare show_nat.simps [simp del]

definition show_int :: "int \<Rightarrow> string" where
  "show_int i = (if i < 0 then CHR ''-'' # show_nat (nat (- i)) else show_nat (nat i))"

text \<open>The format \<open>%0wd\<close> of a non-negative number: padded with zeros on the left.\<close>

definition zero_pad :: "nat \<Rightarrow> nat \<Rightarrow> string" where
  "zero_pad w n = replicate (w - length (show_nat n)) (CHR ''0'') @ show_nat n"

section \<open>Calendar dates\<close>

text \<open>
  \<open>datetime.date\<close>: the constructor raises \<open>ValueError\<close> outside the years 1 to 9999,
  the months 1 to 12 and the days of the month; \<open>isoformat\<close> prints
  \<open>%04d-%02d-%02d\<close>. \<open>date.fromisoformat\<close> is modelled as CPython 3.11 reads a
  text: the form \<open>YYYY-MM-DD\<close>, the basic form \<open>YYYYMMDD\<close>, and the ISO week dates
  \<open>YYYY-Www\<close>, \<open>YYYY-Www-D\<close>, \<open>YYYYWww\<close> and \<open>YYYYWwwD\<close>. The text must be
  7, 8 or 10 bytes long; what follows the day in a text of 10 bytes without hyphens is
  not looked at. (Before 3.11 the function read the first form only.)
\<close>

record date =
  year :: nat
  month :: nat
  day :: nat

definition is_leap :: "nat \<Rightarrow> bool" where
  "is_leap y = (y mod 4 = 0 \<and> (y mod 100 \<noteq> 0 \<or> y mod 400 = 0))"

definition days_in_month :: "nat \<Rightarrow> nat \<Rightarrow> nat" where
  "days_in_month y m =
     (if m = 2 then (if is_leap y then 29 else 28)
      else if m = 4 \<or> m = 6 \<or> m = 9 \<or> m = 11 then 30 else 31)"

definition date_new :: "nat \<Rightarrow> nat \<Rightarrow> nat \<Rightarrow> date option" where
  "date_new y m d =
     (if 1 \<le> y \<and> y \<le> 9999 \<and> 1 \<le> m \<and> m \<le> 12 \<and> 1 \<le> d \<and> d \<le> days_in_month y m
      then Some \<lparr>year = y, month = m, day = d\<rparr> else None)"

definition isoformat :: "date \<Rightarrow> string" where
  "isoformat d = zero_pad 4 (year d) @ ''-'' @ zero_pad 2 (month d) @ ''-'' @ zero_pad 2 (day d)"

fun parse_digits :: "string \<Rightarrow> nat \<Rightarrow> nat option" where
  "parse_digits [] acc = Some acc"
| "parse_digits (c # cs) acc =
     (if is_digit c then parse_digits cs (acc * 10 + digit_val c) else None)"

text \<open>Reading exactly \<open>n\<close> digits at the front of a text; the rest of the text is kept.\<close>

definition parse_digits_n :: "nat \<Rightarrow> string \<Rightarrow> (nat \<times> string) option" where
  "parse_digits_n n p =
     (if length p < n then None
      else case parse_digits (take n p) 0 of None \<Rightarrow> None | Some v \<Rightarrow> Some (v, drop n p))"

text \<open>The number of bytes of a text in UTF-8, for code points below 256.\<close>

definition utf8_length :: "string \<Rightarrow> nat" where
  "utf8_length s = sum_list (map (\<lambda>c. if (of_char c :: nat) < 128 then 1 else 2) s)"

definition days_before_month :: "nat \<Rightarrow> nat" where
  "days_before_month m = [0, 0, 31, 59, 90, 120, 151, 181, 212, 243, 273, 304, 334] ! m"

definition days_before_year :: "nat \<Rightarrow> nat" where
  "days_before_year y = (let p = y - 1 in p * 365 + p div 4 - p div 100 + p div 400)"

text \<open>The ordinal of a date: 1 is the first of January of the year 1.\<close>

definition ymd_to_ord :: "nat \<Rightarrow> nat \<Rightarrow> nat \<Rightarrow> nat" where
  "ymd_to_ord y m d =
     days_before_year y + days_before_month m + (if 2 < m \<and> is_leap y then 1 else 0) + d"

definition ord_to_ymd :: "nat \<Rightarrow> nat \<times> nat \<times> nat" where
  "ord_to_ymd ordinal =
     (let n = ordinal - 1;
          n400 = n div 146097; n = n mod 146097;
          n100 = n div 36524; n = n mod 36524;
          n4 = n div 1461; n = n mod 1461;
          n1 = n div 365; n = n mod 365;
          y = n400 * 400 + 1 + n100 * 100 + n4 * 4 + n1
      in if n1 = 4 \<or> n100 = 4 then (y - 1, 12, 31)
         else
           (let leapyear = (n1 = 3 \<and> (n4 \<noteq> 24 \<or> n100 = 3));
                m = (n + 50) div 32;
                preceding = days_before_month m + (if 2 < m \<and> leapyear then 1 else 0)
            in if n < preceding
               then (y, m - 1, n - (preceding - days_in_month y (m - 1)) + 1)
               else (y, m, n - preceding + 1)))"

text \<open>The ordinal of the Monday that starts the first ISO week of a year.\<close>

definition iso_week1_monday :: "nat \<Rightarrow> nat" where
  "iso_week1_monday y =
     (let first_day = ymd_to_ord y 1 1;
          first_weekday = (first_day + 6) mod 7;
          week1_monday = first_day - first_weekday
      in if 3 < first_weekday then week1_monday + 7 else week1_monday)"

text \<open>
  An ISO week date as year, month and day. A year has a week 53 when it starts on a
  Thursday, or on a Wednesday and is a leap year. For the year 0000 the library's
  arithmetic leaves the calendar and the constructor of the date raises.
\<close>

definition iso_to_ymd :: "nat \<Rightarrow> nat \<Rightarrow> nat \<Rightarrow> (nat \<times> nat \<times> nat) option" where
  "iso_to_ymd iso_year iso_week iso_day =
     (let first_weekday = (ymd_to_ord iso_year 1 1 + 6) mod 7
      in if iso_year < 1 then None
         else if (iso_week = 0 \<or> 53 \<le> iso_week)
                 \<and> \<not> (iso_week = 53
                        \<and> (first_weekday = 3 \<or> (first_weekday = 2 \<and> is_leap iso_year)))
         then None
         else if iso_day = 0 \<or> 8 \<le> iso_day then None
         else Some (ord_to_ymd (iso_week1_monday iso_year + ((iso_week - 1) * 7 + iso_day - 1))))"

text \<open>
  The parser of \<open>date.fromisoformat\<close>: four digits of the year, then either
  \<open>W\<close>, two digits of the week and at most one digit of the day, or two digits of
  the month and two of the day; the hyphens are either all there or all left out.
\<close>

definition parse_isoformat_date :: "string \<Rightarrow> (nat \<times> nat \<times> nat) option" where
  "parse_isoformat_date s =
     (case parse_digits_n 4 s of None \<Rightarrow> None
      | Some (y, p0) \<Rightarrow>
          (let uses_separator = (p0 \<noteq> [] \<and> hd p0 = CHR ''-'');
               p1 = (if uses_separator then tl p0 else p0)
           in if p1 \<noteq> [] \<and> hd p1 = CHR ''W'' then
                (case parse_digits_n 2 (tl p1) of None \<Rightarrow> None
                 | Some (iso_week, p2) \<Rightarrow>
                     if p2 \<noteq> [] then
                       (if uses_separator \<and> hd p2 \<noteq> CHR ''-'' then None
                        else case parse_digits_n 1 (if uses_separator then tl p2 else p2) of
                               None \<Rightarrow> None
                             | Some (iso_day, p3) \<Rightarrow> iso_to_ymd y iso_week iso_day)
                     else iso_to_ymd y iso_week 1)
              else
                (case parse_digits_n 2 p1 of None \<Rightarrow> None
                 | Some (m, p2) \<Rightarrow>
                     if uses_separator \<and> (p2 = [] \<or> hd p2 \<noteq> CHR ''-'') then None
                     else case parse_digits_n 2 (if uses_separator then tl p2 else p2) of
                            None \<Rightarrow> None
                          | Some (d, p3) \<Rightarrow> Some (y, m, d))))"

definition fromisoformat :: "string \<Rightarrow> date option" where
  "fromisoformat s =
     (if utf8_length s \<noteq> 7 \<and> utf8_length s \<noteq> 8 \<and> utf8_length s \<noteq> 10 then None
      else case parse_isoformat_date s of None \<Rightarrow> None
           | Some (y, m, d) \<Rightarrow> date_new y m d)"

text \<open>
  The form \<open>YYYY-MM-DD\<close> that the form asks for: ten characters, digits but for the
  two hyphens.
\<close>

definition iso_extended_format :: "string \<Rightarrow> bool" where
  "iso_extended_format s =
     (length s = 10 \<and> s ! 4 = CHR ''-'' \<and> s ! 7 = CHR ''-''
      \<and> list_all is_digit (take 4 s @ take 2 (drop 5 s) @ take 2 (drop 8 s)))"

section \<open>The submission form and its validation\<close>

text \<open>
  The widgets of the form, as the script reads them when the form is submitted: text
  inputs and text areas give strings, toggles give booleans, the date input gives a date
  and the select boxes give one of their options.
\<close>

record form_input =
  inspection_date :: date
  facility_name :: string
  nurse_name :: string
  machine_type :: string
  machine_id :: string
  room_location :: string
  power_status :: string
  alarms_functional :: bool
  calibration_confirmed :: bool
  calibration_due_raw :: string
  temperature_raw :: string
  pressure_raw :: string
  cleaning_status :: string
  issues_noted :: string
  follow_up_required :: bool
  follow_up_actions :: string

definition machine_types :: "string list" where
  "machine_types =
     [''Apheresis Machine'', ''Blood Fridge'', ''Blood Pressure Monitor'', ''Centrifuge'',
      ''Defibrillator'', ''Infusion Pump'', ''Scale'', ''Other'']"

definition power_status_options :: "string list" where
  "power_status_options = [''OK'', ''Needs Attention'', ''Out of Service'']"

definition cleaning_status_options :: "string list" where
  "cleaning_status_options = [''Sanitized'', ''Needs Cleaning'', ''Not Applicable'']"

text \<open>
  Python's floats. \<open>float(s)\<close> ignores whitespace around the text and reads, in any
  case and with an optional sign, the special values \<open>inf\<close>, \<open>infinity\<close> and
  \<open>nan\<close>; every other text is read as a decimal literal or raises \<open>ValueError\<close>.
  The finite floats are binary floating point numbers: their reading and printing are
  parameters of the model (\<open>parse_finite\<close> gives \<open>None\<close> where \<open>float\<close> raises),
  and \<open>'f\<close> is their type.
\<close>

datatype 'f pyfloat = Finite 'f | Inf bool | NaN

record 'f float_lib =
  parse_finite :: "string \<Rightarrow> 'f option"
  repr_finite :: "'f \<Rightarrow> string"

definition ascii_lower :: "string \<Rightarrow> string" where
  "ascii_lower s =
     map (\<lambda>c. if 65 \<le> (of_char c :: nat) \<and> (of_char c :: nat) \<le> 90
              then char_of ((of_char c :: nat) + 32) else c) s"

definition py_float :: "'f float_lib \<Rightarrow> string \<Rightarrow> 'f pyfloat option" where
  "py_float L s =
     (let t = strip s;
          negative = (t \<noteq> [] \<and> hd t = CHR ''-'');
          body = (if t \<noteq> [] \<and> (hd t = CHR ''-'' \<or> hd t = CHR ''+'') then tl t else t);
          name = ascii_lower body
      in if name = ''inf'' \<or> name = ''infinity'' then Some (Inf negative)
         else if name = ''nan'' then Some NaN
         else map_option Finite (parse_finite L t))"

fun py_str :: "'f float_lib \<Rightarrow> 'f pyfloat \<Rightarrow> string" where
  "py_str L (Finite x) = repr_finite L x"
| "py_str L (Inf negative) = (if negative then ''-inf'' else ''inf'')"
| "py_str L NaN = ''nan''"

definition required_fields :: "form_input \<Rightarrow> (string \<times> string) list" where
  "required_fields f =
     [(''Facility name'', facility_name f),
      (''Inspector name'', nurse_name f),
      (''Equipment ID'', machine_id f),
      (''Location'', room_location f)]"

fun check_required :: "(string \<times> string) list \<Rightarrow> string list \<Rightarrow> string list" where
  "check_required [] errors = errors"
| "check_required ((label, v) # rest) errors =
     check_required rest
       (if \<not> truthy (strip v) then errors @ [label @ '' is required.''] else errors)"

definition check_calibration :: "string \<Rightarrow> string list \<Rightarrow> string option \<times> string list" where
  "check_calibration raw errors =
     (if truthy (strip raw) then
        (case fromisoformat (strip raw) of
           Some d \<Rightarrow> (Some (isoformat d), errors)
         | None \<Rightarrow> (None, errors @ [''Calibration due date must follow YYYY-MM-DD format.'']))
      else (None, errors))"

definition check_temperature :: "'f float_lib \<Rightarrow> string \<Rightarrow> string list \<Rightarrow> string \<times> string list" where
  "check_temperature L raw errors =
     (if truthy (strip raw) then
        (case py_float L (strip raw) of
           Some x \<Rightarrow> (py_str L x, errors)
         | None \<Rightarrow> ([], errors @ [''Temperature must be recorded as a number (e.g. 4.5).'']))
      else ([], errors))"

definition check_pressure :: "'f float_lib \<Rightarrow> string \<Rightarrow> string list \<Rightarrow> string \<times> string list" where
  "check_pressure L raw errors =
     (if truthy (strip raw) then
        (case py_float L (strip raw) of
           Some x \<Rightarrow> (py_str L x, errors)
         | None \<Rightarrow> ([], errors @ [''Pressure must be recorded as a number (e.g. 101.3).'']))
      else ([], errors))"

definition check_follow_up :: "bool \<Rightarrow> string \<Rightarrow> string list \<Rightarrow> string list" where
  "check_follow_up required actions errors =
     (if required \<and> \<not> truthy (strip actions)
      then errors @ [''Provide follow-up actions when follow-up is marked as required.'']
      else errors)"

record validation =
  errors :: "string list"
  calibration_due_value :: "string option"
  temperature_value :: string
  pressure_value :: string

definition validate :: "'f float_lib \<Rightarrow> form_input \<Rightarrow> validation" where
  "validate L f =
     (let errors0 = check_required (required_fields f) [];
          (calibration, errors1) = check_calibration (calibration_due_raw f) errors0;
          (temperature, errors2) = check_temperature L (temperature_raw f) errors1;
          (pressure, errors3) = check_pressure L (pressure_raw f) errors2;
          errors4 = check_follow_up (follow_up_required f) (follow_up_actions f) errors3
      in \<lparr>errors = errors4, calibration_due_value = calibration,
          temperature_value = temperature, pressure_value = pressure\<rparr>)"

section \<open>The payload of a submission\<close>

definition bool_to_str :: "bool \<Rightarrow> string" where
  "bool_to_str v = (if v then ''true'' else ''false'')"

text \<open>The expression \<open>x or ""\<close> on an optional string.\<close>

definition or_empty :: "string option \<Rightarrow> string" where
  "or_empty x = (case x of None \<Rightarrow> [] | Some s \<Rightarrow> if truthy s then s else [])"

definition build_payload :: "string option \<Rightarrow> form_input \<Rightarrow> validation \<Rightarrow> (string \<times> string) list" where
  "build_payload user_email f v =
     [(''inspection_date'', isoformat (inspection_date f)),
      (''facility_name'', strip (facility_name f)),
      (''nurse_name'', strip (nurse_name f)),
      (''machine_type'', machine_type f),
      (''machine_id'', strip (machine_id f)),
      (''room_location'', strip (room_location f)),
      (''power_status'', power_status f),
      (''alarms_functional'', bool_to_str (alarms_functional f)),
      (''calibration_due_date'', or_empty (calibration_due_value v)),
      (''calibration_confirmed'', bool_to_str (calibration_confirmed f)),
      (''temperature_celsius'', temperature_value v),
      (''pressure_kpa'', pressure_value v),
      (''cleaning_status'', cleaning_status f),
      (''issues_noted'', strip (issues_noted f)),
      (''follow_up_required'', bool_to_str (follow_up_required f)),
      (''follow_up_actions'', strip (follow_up_actions f)),
      (''user_email'', or_empty user_email)]"

section \<open>The statement execution client\<close>

text \<open>
  The configuration read from the environment when the script starts, and the objects of
  the statement execution API. Every attribute that may be absent is an option. A call
  of the client either raises (\<open>Inl\<close>) or returns (\<open>Inr\<close>); what the warehouse
  answers is not in the hands of the script, so the client is a parameter. The answer to
  \<open>get_statement\<close> may change from one poll to the next: its first argument is the
  number of polls made before.
\<close>

record config =
  CATALOG_NAME :: string
  SCHEMA_NAME :: string
  TABLE_NAME :: string
  WAREHOUSE_ID :: string

datatype exn = RuntimeError string | ValueError string | SdkError string

fun exn_str :: "exn \<Rightarrow> string" where
  "exn_str (RuntimeError m) = m"
| "exn_str (ValueError m) = m"
| "exn_str (SdkError m) = m"

datatype StatementState = CANCELED | CLOSED | FAILED | PENDING | RUNNING | SUCCEEDED

record ServiceError =
  error_message :: "string option"

record StatementStatus =
  status_error :: "ServiceError option"
  status_state :: "StatementState option"

record ColumnInfo =
  column_name :: "string option"

record ResultSchema =
  schema_columns :: "ColumnInfo list option"

record ResultManifest =
  manifest_schema :: "ResultSchema option"

record ResultData =
  data_array :: "string option list list option"

record StatementResponse =
  resp_manifest :: "ResultManifest option"
  resp_result :: "ResultData option"
  resp_statement_id :: "string option"
  resp_status :: "StatementStatus option"

record statement_request =
  req_statement :: string
  req_warehouse_id :: string
  req_catalog :: string
  req_schema :: string
  req_parameters :: "(string \<times> string) list"
  req_wait_timeout :: string

datatype io_call =
  ExecuteStatement statement_request
| GetStatement "string option"
| GetStatementResultChunkN "string option" nat

record client =
  execute_statement :: "statement_request \<Rightarrow> exn + StatementResponse"
  get_statement :: "nat \<Rightarrow> string option \<Rightarrow> exn + StatementResponse"
  get_statement_result_chunk_n :: "string option \<Rightarrow> nat \<Rightarrow> exn + ResultData"

text \<open>The loop condition \<open>status and status.state in (PENDING, RUNNING)\<close>.\<close>

definition still_running :: "StatementStatus option \<Rightarrow> bool" where
  "still_running status =
     (case status of None \<Rightarrow> False
      | Some st \<Rightarrow> status_state st = Some PENDING \<or> status_state st = Some RUNNING)"

text \<open>
  The polling loop of \<open>execute_sql\<close>. It runs for as long as the warehouse reports
  the statement pending or running, so it need not end: \<open>None\<close> is the run that never
  returns. The log collects the calls made to the warehouse, in order.
\<close>

partial_function (option) poll_statement ::
  "client \<Rightarrow> nat \<Rightarrow> StatementResponse \<Rightarrow> io_call list \<Rightarrow> ((exn + StatementResponse) \<times> io_call list) option"
where
  "poll_statement cl n current log =
     (if still_running (resp_status current) then
        (case get_statement cl n (resp_statement_id current) of
           Inl e \<Rightarrow> Some (Inl e, log @ [GetStatement (resp_statement_id current)])
         | Inr r \<Rightarrow> poll_statement cl (Suc n) r (log @ [GetStatement (resp_statement_id current)]))
      else Some (Inr current, log))"

text \<open>The message of the \<open>RuntimeError\<close>: \<open>message or "SQL execution failed"\<close>.\<close>

definition failure_message :: "StatementStatus option \<Rightarrow> string" where
  "failure_message status =
     (let message =
        (case status of None \<Rightarrow> None
         | Some st \<Rightarrow> (case status_error st of None \<Rightarrow> None | Some err \<Rightarrow> error_message err))
      in case message of None \<Rightarrow> ''SQL execution failed''
         | Some m \<Rightarrow> if truthy m then m else ''SQL execution failed'')"

definition succeeded :: "StatementStatus option \<Rightarrow> bool" where
  "succeeded status =
     (case status of None \<Rightarrow> False | Some st \<Rightarrow> status_state st = Some SUCCEEDED)"

text \<open>The arguments of the call of \<open>execute_statement\<close> in \<open>execute_sql\<close>.\<close>

definition sql_request :: "config \<Rightarrow> string \<Rightarrow> (string \<times> string) list \<Rightarrow> statement_request" where
  "sql_request cfg statement parameters =
     \<lparr>req_statement = statement, req_warehouse_id = WAREHOUSE_ID cfg,
      req_catalog = CATALOG_NAME cfg, req_schema = SCHEMA_NAME cfg,
      req_parameters = parameters, req_wait_timeout = ''5s''\<rparr>"

definition execute_sql ::
  "client \<Rightarrow> config \<Rightarrow> string \<Rightarrow> (string \<times> string) list \<Rightarrow> io_call list
    \<Rightarrow> ((exn + string option \<times> StatementResponse) \<times> io_call list) option"
where
  "execute_sql cl cfg statement parameters log =
     (let request = sql_request cfg statement parameters;
          log1 = log @ [ExecuteStatement request]
      in case execute_statement cl request of
           Inl e \<Rightarrow> Some (Inl e, log1)
         | Inr response \<Rightarrow>
             (case poll_statement cl 0 response log1 of
                None \<Rightarrow> None
              | Some (Inl e, log2) \<Rightarrow> Some (Inl e, log2)
              | Some (Inr current, log2) \<Rightarrow>
                  if \<not> succeeded (resp_status current)
                  then Some (Inl (RuntimeError (failure_message (resp_status current))), log2)
                  else Some (Inr (resp_statement_id current, current), log2)))"

section \<open>The statements\<close>

text \<open>A statement is written as a multi-line string: every line follows a line break.\<close>

definition sql_text :: "string list \<Rightarrow> string" where
  "sql_text ls = concat (map (\<lambda>l. CHR 0x0A # l) ls)"

definition table_path :: "config \<Rightarrow> string" where
  "table_path cfg = CATALOG_NAME cfg @ ''.'' @ SCHEMA_NAME cfg @ ''.'' @ TABLE_NAME cfg"

definition insert_statement :: "config \<Rightarrow> string" where
  "insert_statement cfg = sql_text
     [''        INSERT INTO '' @ table_path cfg @ '' ('',
      ''            inspection_date,'',
      ''            facility_name,'',
      ''            nurse_name,'',
      ''            machine_type,'',
      ''            machine_id,'',
      ''            room_location,'',
      ''            power_status,'',
      ''            alarms_functional,'',
      ''            calibration_due_date,'',
      ''            calibration_confirmed,'',
      ''            temperature_celsius,'',
      ''            pressure_kpa,'',
      ''            cleaning_status,'',
      ''            issues_noted,'',
      ''            follow_up_required,'',
      ''            follow_up_actions,'',
      ''            user_email,'',
      ''            submitted_at'',
      ''        ) VALUES ('',
      ''            to_date(:inspection_date),'',
      ''            :facility_name,'',
      ''            :nurse_name,'',
      ''            :machine_type,'',
      ''            :machine_id,'',
      ''            :room_location,'',
      ''            :power_status,'',
      ''            CASE WHEN lower(:alarms_functional) = 'true' THEN TRUE ELSE FALSE END,'',
      ''            CASE WHEN :calibration_due_date = '' @ [CHR 0x27, CHR 0x27]
        @ '' THEN NULL ELSE to_date(:calibration_due_date) END,'',
      ''            CASE WHEN lower(:calibration_confirmed) = 'true' THEN TRUE ELSE FALSE END,'',
      ''            TRY_CAST(NULLIF(:temperature_celsius, '' @ [CHR 0x27, CHR 0x27] @ '') AS DOUBLE),'',
      ''            TRY_CAST(NULLIF(:pressure_kpa, '' @ [CHR 0x27, CHR 0x27] @ '') AS DOUBLE),'',
      ''            :cleaning_status,'',
      ''            :issues_noted,'',
      ''            CASE WHEN lower(:follow_up_required) = 'true' THEN TRUE ELSE FALSE END,'',
      ''            :follow_up_actions,'',
      ''            :user_email,'',
      ''            current_timestamp()'',
      ''        )'',
      ''    '']"

definition fetch_query :: "config \<Rightarrow> int \<Rightarrow> string" where
  "fetch_query cfg limit = sql_text
     [''        SELECT'',
      ''            inspection_date,'',
      ''            facility_name,'',
      ''            machine_type,'',
      ''            machine_id,'',
      ''            power_status,'',
      ''            follow_up_required,'',
      ''            submitted_at,'',
      ''            user_email'',
      ''        FROM '' @ table_path cfg,
      ''        ORDER BY submitted_at DESC'',
      ''        LIMIT '' @ show_int limit,
      ''    '']"

section \<open>Writing a submission\<close>

text \<open>
  \<open>insert_submission\<close> turns every item of the payload into a named parameter, in the
  order of the dictionary, and executes the insert statement with them.
\<close>

definition insert_submission ::
  "client \<Rightarrow> config \<Rightarrow> (string \<times> string) list \<Rightarrow> io_call list \<Rightarrow> ((exn + unit) \<times> io_call list) option"
where
  "insert_submission cl cfg payload log =
     (let statement = insert_statement cfg;
          params = map (\<lambda>(name, v). (name, v)) payload
      in case execute_sql cl cfg statement params log of
           None \<Rightarrow> None
         | Some (Inl e, log') \<Rightarrow> Some (Inl e, log')
         | Some (Inr _, log') \<Rightarrow> Some (Inr (), log'))"

section \<open>The submit handler\<close>

datatype ui_event = StError string | StSuccess string

record page =
  io_log :: "io_call list"
  ui :: "ui_event list"
  session_submitted_at :: bool

definition on_submit ::
  "'f float_lib \<Rightarrow> client \<Rightarrow> config \<Rightarrow> string option \<Rightarrow> form_input \<Rightarrow> page \<Rightarrow> page option"
where
  "on_submit L cl cfg user_email f pg =
     (let v = validate L f
      in if errors v \<noteq> [] then Some (pg\<lparr>ui := ui pg @ map StError (errors v)\<rparr>)
         else
           (let payload = build_payload user_email f v
            in case insert_submission cl cfg payload (io_log pg) of
                 None \<Rightarrow> None
               | Some (Inl exc, log') \<Rightarrow>
                   Some (pg\<lparr>io_log := log',
                           ui := ui pg @ [StError (''Unable to save inspection: '' @ exn_str exc)]\<rparr>)
               | Some (Inr _, log') \<Rightarrow>
                   Some (pg\<lparr>io_log := log',
                           ui := ui pg @ [StSuccess ''Inspection submitted successfully.''],
                           session_submitted_at := True\<rparr>)))"

section \<open>Reading the recent submissions\<close>

text \<open>
  A data frame: the column labels and the rows. \<open>pd.DataFrame(data, columns=columns)\<close>
  on a list of rows gives the empty frame for no rows; otherwise the rows are filled
  with nulls to the length of the longest one, and a number of column labels other than
  that length raises \<open>ValueError\<close>.
\<close>

record dataframe =
  df_columns :: "string list"
  df_rows :: "string option list list"

definition make_dataframe :: "string option list list \<Rightarrow> string list \<Rightarrow> exn + dataframe" where
  "make_dataframe data columns =
     (if data = [] then Inr \<lparr>df_columns = columns, df_rows = []\<rparr>
      else
        (let w = fold max (map length data) 0
         in if length columns \<noteq> w
            then Inl (ValueError (show_nat (length columns) @ '' columns passed, passed data had ''
                       @ show_nat w @ '' columns''))
            else Inr \<lparr>df_columns = columns,
                      df_rows = map (\<lambda>r. r @ replicate (w - length r) None) data\<rparr>))"

text \<open>The column labels taken from the manifest of the response.\<close>

definition manifest_columns :: "StatementResponse \<Rightarrow> string list" where
  "manifest_columns response =
     (case resp_manifest response of None \<Rightarrow> []
      | Some m \<Rightarrow>
          (case manifest_schema m of None \<Rightarrow> []
           | Some sc \<Rightarrow>
               (case schema_columns sc of None \<Rightarrow> []
                | Some cs \<Rightarrow> map (\<lambda>col. or_empty (column_name col)) cs)))"

text \<open>The rows that came with the response: \<open>response.result and response.result.data_array\<close>.\<close>

definition inline_data :: "StatementResponse \<Rightarrow> string option list list option" where
  "inline_data response =
     (case resp_result response of None \<Rightarrow> None
      | Some r \<Rightarrow>
          (case data_array r of None \<Rightarrow> None
           | Some d \<Rightarrow> if d = [] then None else Some d))"

definition default_limit :: int where
  "default_limit = 20"

text \<open>
  The result is \<open>Inl\<close> for an exception that leaves the function, \<open>Inr None\<close> for
  the returned \<open>None\<close> and \<open>Inr (Some df)\<close> for a returned data frame. The limit
  argument is \<open>None\<close> when the caller leaves it out.
\<close>

definition fetch_recent_submissions ::
  "client \<Rightarrow> config \<Rightarrow> int option \<Rightarrow> io_call list \<Rightarrow> ((exn + dataframe option) \<times> io_call list) option"
where
  "fetch_recent_submissions cl cfg limit_arg log =
     (let limit = (case limit_arg of None \<Rightarrow> default_limit | Some n \<Rightarrow> n);
          query = fetch_query cfg limit
      in case execute_sql cl cfg query [] log of
           None \<Rightarrow> None
         | Some (Inl e, log1) \<Rightarrow> Some (Inr None, log1)
         | Some (Inr (statement_id, response), log1) \<Rightarrow>
             (let columns = manifest_columns response
              in case inline_data response of
                   Some d \<Rightarrow> Some (map_sum id Some (make_dataframe d columns), log1)
                 | None \<Rightarrow>
                     (let log2 = log1 @ [GetStatementResultChunkN statement_id 0]
                      in case get_statement_result_chunk_n cl statement_id 0 of
                           Inl e \<Rightarrow> Some (Inl e, log2)
                         | Inr chunk \<Rightarrow>
                             (let d = (case data_array chunk of None \<Rightarrow> [] | Some d \<Rightarrow> d)
                              in Some (map_sum id Some (make_dataframe d columns), log2)))))"

section \<open>The statements at the warehouse\<close>

text \<open>
  What the two statements of the script mean at the warehouse. The table has the
  eighteen columns of the setup script; a null is \<open>None\<close>. The built-in functions of
  the warehouse on dates and doubles and its clock are parameters; the doubles are the
  type \<open>'f\<close> of the Python floats.
\<close>

record 'f equipment_check =
  col_inspection_date :: "date option"
  col_facility_name :: "string option"
  col_nurse_name :: "string option"
  col_machine_type :: "string option"
  col_machine_id :: "string option"
  col_room_location :: "string option"
  col_power_status :: "string option"
  col_alarms_functional :: "bool option"
  col_calibration_due_date :: "date option"
  col_calibration_confirmed :: "bool option"
  col_temperature_celsius :: "'f pyfloat option"
  col_pressure_kpa :: "'f pyfloat option"
  col_cleaning_status :: "string option"
  col_issues_noted :: "string option"
  col_follow_up_required :: "bool option"
  col_follow_up_actions :: "string option"
  col_user_email :: "string option"
  col_submitted_at :: "nat option"

record 'f warehouse_lib =
  to_date :: "string \<Rightarrow> date option"
  try_cast_double :: "string \<Rightarrow> 'f pyfloat option"
  current_timestamp :: nat

text \<open>\<open>lower(x)\<close> on the code points below 256.\<close>

definition sql_lower_char :: "char \<Rightarrow> char" where
  "sql_lower_char c =
     (let n = (of_char c :: nat)
      in if (65 \<le> n \<and> n \<le> 90) \<or> (192 \<le> n \<and> n \<le> 214) \<or> (216 \<le> n \<and> n \<le> 222)
         then char_of (n + 32) else c)"

definition sql_lower :: "string \<Rightarrow> string" where
  "sql_lower s = map sql_lower_char s"

text \<open>\<open>CASE WHEN lower(x) = 'true' THEN TRUE ELSE FALSE END\<close>\<close>

definition sql_is_true :: "string \<Rightarrow> bool" where
  "sql_is_true x = (if sql_lower x = ''true'' then True else False)"

text \<open>\<open>NULLIF(x, y)\<close>\<close>

definition sql_nullif :: "string \<Rightarrow> string \<Rightarrow> string option" where
  "sql_nullif x y = (if x = y then None else Some x)"

text \<open>\<open>TRY_CAST(NULLIF(x, '') AS DOUBLE)\<close>: the cast of a null is null.\<close>

definition sql_double_or_null :: "'f warehouse_lib \<Rightarrow> string \<Rightarrow> 'f pyfloat option" where
  "sql_double_or_null W x =
     (case sql_nullif x [] of None \<Rightarrow> None | Some s \<Rightarrow> try_cast_double W s)"

text \<open>\<open>CASE WHEN x = '' THEN NULL ELSE to_date(x) END\<close>\<close>

definition sql_date_or_null :: "'f warehouse_lib \<Rightarrow> string \<Rightarrow> date option" where
  "sql_date_or_null W x = (if x = [] then None else to_date W x)"

definition insert_parameter_names :: "string list" where
  "insert_parameter_names =
     [''inspection_date'', ''facility_name'', ''nurse_name'', ''machine_type'', ''machine_id'',
      ''room_location'', ''power_status'', ''alarms_functional'', ''calibration_due_date'',
      ''calibration_confirmed'', ''temperature_celsius'', ''pressure_kpa'', ''cleaning_status'',
      ''issues_noted'', ''follow_up_required'', ''follow_up_actions'', ''user_email'']"

text \<open>The value bound to a named parameter \<open>:name\<close>.\<close>

definition bound :: "(string \<times> string) list \<Rightarrow> string \<Rightarrow> string" where
  "bound params name = (case map_of params name of Some v \<Rightarrow> v | None \<Rightarrow> [])"

text \<open>
  The row that the \<open>VALUES\<close> clause of the insert statement denotes for a list of
  parameters; there is none when a parameter of the statement is not bound.
\<close>

definition insert_values :: "'f warehouse_lib \<Rightarrow> (string \<times> string) list \<Rightarrow> 'f equipment_check option" where
  "insert_values W params =
     (if list_all (\<lambda>name. map_of params name \<noteq> None) insert_parameter_names then
        Some \<lparr>col_inspection_date = to_date W (bound params ''inspection_date''),
              col_facility_name = Some (bound params ''facility_name''),
              col_nurse_name = Some (bound params ''nurse_name''),
              col_machine_type = Some (bound params ''machine_type''),
              col_machine_id = Some (bound params ''machine_id''),
              col_room_location = Some (bound params ''room_location''),
              col_power_status = Some (bound params ''power_status''),
              col_alarms_functional = Some (sql_is_true (bound params ''alarms_functional'')),
              col_calibration_due_date = sql_date_or_null W (bound params ''calibration_due_date''),
              col_calibration_confirmed = Some (sql_is_true (bound params ''calibration_confirmed'')),
              col_temperature_celsius = sql_double_or_null W (bound params ''temperature_celsius''),
              col_pressure_kpa = sql_double_or_null W (bound params ''pressure_kpa''),
              col_cleaning_status = Some (bound params ''cleaning_status''),
              col_issues_noted = Some (bound params ''issues_noted''),
              col_follow_up_required = Some (sql_is_true (bound params ''follow_up_required'')),
              col_follow_up_actions = Some (bound params ''follow_up_actions''),
              col_user_email = Some (bound params ''user_email''),
              col_submitted_at = Some (current_timestamp W)\<rparr>
      else None)"

text \<open>
  The query of \<open>fetch_recent_submissions\<close>: eight of the columns, the rows ordered by
  \<open>submitted_at\<close> from the latest to the earliest (nulls last), cut after \<open>limit\<close>
  rows. The warehouse rejects a negative limit.
\<close>

record recent_row =
  rec_inspection_date :: "date option"
  rec_facility_name :: "string option"
  rec_machine_type :: "string option"
  rec_machine_id :: "string option"
  rec_power_status :: "string option"
  rec_follow_up_required :: "bool option"
  rec_submitted_at :: "nat option"
  rec_user_email :: "string option"

definition recent_columns :: "string list" where
  "recent_columns =
     [''inspection_date'', ''facility_name'', ''machine_type'', ''machine_id'', ''power_status'',
      ''follow_up_required'', ''submitted_at'', ''user_email'']"

text \<open>The select list of a statement as the script lays it out: one column a line.\<close>

fun select_lines :: "string list \<Rightarrow> string list" where
  "select_lines [] = []"
| "select_lines [c] = [''            '' @ c]"
| "select_lines (c # cs) = (''            '' @ c @ '','') # select_lines cs"

definition project_recent :: "'f equipment_check \<Rightarrow> recent_row" where
  "project_recent r =
     \<lparr>rec_inspection_date = col_inspection_date r,
      rec_facility_name = col_facility_name r,
      rec_machine_type = col_machine_type r,
      rec_machine_id = col_machine_id r,
      rec_power_status = col_power_status r,
      rec_follow_up_required = col_follow_up_required r,
      rec_submitted_at = col_submitted_at r,
      rec_user_email = col_user_email r\<rparr>"

definition order_by_submitted_at_desc :: "'f equipment_check list \<Rightarrow> 'f equipment_check list" where
  "order_by_submitted_at_desc tbl = rev (sort_key col_submitted_at tbl)"

definition select_recent :: "'f equipment_check list \<Rightarrow> int \<Rightarrow> exn + recent_row list" where
  "select_recent tbl limit =
     (if limit < 0 then Inl (SdkError ''The limit expression must be equal to or greater than 0'')
      else Inr (take (nat limit) (map project_recent (order_by_submitted_at_desc tbl))))"

text \<open>A row of the result as the API delivers it: every value as a string, or null.\<close>

definition render_recent :: "(nat \<Rightarrow> string) \<Rightarrow> recent_row \<Rightarrow> string option list" where
  "render_recent show_timestamp r =
     [map_option isoformat (rec_inspection_date r),
      rec_facility_name r,
      rec_machine_type r,
      rec_machine_id r,
      rec_power_status r,
      map_option bool_to_str (rec_follow_up_required r),
      map_option show_timestamp (rec_submitted_at r),
      rec_user_email r]"

section \<open>Reading the log of calls\<close>

fun is_poll :: "io_call \<Rightarrow> bool" where
  "is_poll (GetStatement _) = True"
| "is_poll _ = False"

text \<open>The requests that were handed to \<open>execute_statement\<close>, in order.\<close>

fun sent_requests :: "io_call list \<Rightarrow> statement_request list" where
  "sent_requests [] = []"
| "sent_requests (ExecuteStatement r # cs) = r # sent_requests cs"
| "sent_requests (_ # cs) = sent_requests cs"

text \<open>A string that \<open>strip\<close> would leave as it is: no whitespace at either end.\<close>

definition trimmed :: "string \<Rightarrow> bool" where
  "trimmed s = (s = [] \<or> (\<not> py_isspace (hd s) \<and> \<not> py_isspace (last s)))"

section \<open>Sample inputs\<close>

text \<open>
  Concrete inputs on which the model is run. The sample float library stands for
  Python's on a small part of its domain: it reads whole numbers of at most fifteen
  digits, written without a sign and with an optional \<open>.0\<close>, and prints them the
  way Python prints a float of that value; every other text it rejects, also where
  \<open>float\<close> would read it. The sample warehouse reads the same numbers and the dates
  of \<open>fromisoformat\<close>.
\<close>

definition sample_float :: "string \<Rightarrow> int option" where
  "sample_float s =
     (let whole = (if 2 \<le> length s \<and> drop (length s - 2) s = ''.0''
                   then take (length s - 2) s else s)
      in if whole = [] \<or> 15 < length whole then None
         else case parse_digits whole 0 of None \<Rightarrow> None | Some n \<Rightarrow> Some (int n))"

definition sample_lib :: "int float_lib" where
  "sample_lib = \<lparr>parse_finite = sample_float, repr_finite = (\<lambda>i. show_int i @ ''.0'')\<rparr>"

definition sample_warehouse :: "int warehouse_lib" where
  "sample_warehouse =
     \<lparr>to_date = fromisoformat, try_cast_double = py_float sample_lib,
      current_timestamp = 1700000000\<rparr>"

definition sample_config :: config where
  "sample_config =
     \<lparr>CATALOG_NAME = ''alex_feng'', SCHEMA_NAME = ''lifeblood_checks'',
      TABLE_NAME = ''lifeblood_equipment_checks'', WAREHOUSE_ID = ''abc123''\<rparr>"

definition sample_form :: form_input where
  "sample_form =
     \<lparr>inspection_date = \<lparr>year = 2024, month = 3, day = 7\<rparr>,
      facility_name = ''Sydney Processing Centre'',
      nurse_name = ''Alex Smith'',
      machine_type = ''Centrifuge'',
      machine_id = '' FX-2041 '',
      room_location = ''Donor Room 3'',
      power_status = ''OK'',
      alarms_functional = True,
      calibration_confirmed = True,
      calibration_due_raw = ''2024-12-31'',
      temperature_raw = ''4'',
      pressure_raw = [],
      cleaning_status = ''Sanitized'',
      issues_noted = [],
      follow_up_required = False,
      follow_up_actions = []\<rparr>"

definition sample_page :: page where
  "sample_page = \<lparr>io_log = [], ui = [], session_submitted_at = False\<rparr>"

definition succeeded_status :: StatementStatus where
  "succeeded_status = \<lparr>status_error = None, status_state = Some SUCCEEDED\<rparr>"

definition recent_manifest :: ResultManifest where
  "recent_manifest =
     \<lparr>manifest_schema =
        Some \<lparr>schema_columns = Some (map (\<lambda>n. \<lparr>column_name = Some n\<rparr>) recent_columns)\<rparr>\<rparr>"

text \<open>A warehouse that answers every statement at once with the given rows.\<close>

definition prompt_client :: "string option list list \<Rightarrow> client" where
  "prompt_client data =
     \<lparr>execute_statement = (\<lambda>request. Inr
        \<lparr>resp_manifest = Some recent_manifest,
         resp_result = Some \<lparr>data_array = Some data\<rparr>,
         resp_statement_id = Some ''s1'',
         resp_status = Some succeeded_status\<rparr>),
      get_statement = (\<lambda>n sid. Inl (SdkError ''no such statement'')),
      get_statement_result_chunk_n = (\<lambda>sid k. Inr \<lparr>data_array = Some data\<rparr>)\<rparr>"

text \<open>
  A warehouse that accepts the statement, reports it running at the first poll and
  succeeded at the second, sends no rows with the response, and fails when the first
  chunk of the result is asked for.
\<close>

definition broken_chunk_client :: client where
  "broken_chunk_client =
     \<lparr>execute_statement = (\<lambda>request. Inr
        \<lparr>resp_manifest = None, resp_result = None, resp_statement_id = Some ''s1'',
         resp_status = Some \<lparr>status_error = None, status_state = Some PENDING\<rparr>\<rparr>),
      get_statement = (\<lambda>n sid. Inr
        \<lparr>resp_manifest = Some recent_manifest, resp_result = None, resp_statement_id = sid,
         resp_status = Some \<lparr>status_error = None,
           status_state = Some (if n = 0 then RUNNING else SUCCEEDED)\<rparr>\<rparr>),
      get_statement_result_chunk_n = (\<lambda>sid k. Inl (SdkError ''connection reset''))\<rparr>"

text \<open>A warehouse that cannot be reached.\<close>

definition unreachable_client :: client where
  "unreachable_client =
     \<lparr>execute_statement = (\<lambda>request. Inl (SdkError ''connection refused'')),
      get_statement = (\<lambda>n sid. Inl (SdkError ''connection refused'')),
      get_statement_result_chunk_n = (\<lambda>sid k. Inl (SdkError ''connection refused''))\<rparr>"

definition sample_table :: "int equipment_check list" where
  "sample_table =
     map (\<lambda>(machine, stamp).
        \<lparr>col_inspection_date = Some \<lparr>year = 2024, month = 3, day = 7\<rparr>,
         col_facility_name = Some ''Sydney Processing Centre'',
         col_nurse_name = Some ''Alex Smith'',
         col_machine_type = Some ''Centrifuge'',
         col_machine_id = Some machine,
         col_room_location = Some ''Donor Room 3'',
         col_power_status = Some ''OK'',
         col_alarms_functional = Some True,
         col_calibration_due_date = None,
         col_calibration_confirmed = Some True,
         col_temperature_celsius = Some (Finite 4),
         col_pressure_kpa = None,
         col_cleaning_status = Some ''Sanitized'',
         col_issues_noted = Some [],
         col_follow_up_required = Some False,
         col_follow_up_actions = Some [],
         col_user_email = None,
         col_submitted_at = stamp\<rparr>)
       [(''FX-1'', Some 10), (''FX-2'', None), (''FX-3'', Some 30)]"

text \<open>The two latest rows of the sample table, as the query selects them.\<close>

definition sample_recent :: "recent_row list" where
  "sample_recent =
     map (\<lambda>(machine, stamp).
        \<lparr>rec_inspection_date = Some \<lparr>year = 2024, month = 3, day = 7\<rparr>,
         rec_facility_name = Some ''Sydney Processing Centre'',
         rec_machine_type = Some ''Centrifuge'',
         rec_machine_id = Some machine,
         rec_power_status = Some ''OK'',
         rec_follow_up_required = Some False,
         rec_submitted_at = stamp,
         rec_user_email = None\<rparr>)
       [(''FX-3'', Some 30), (''FX-1'', Some 10)]"

section \<open>Properties of the strings and dates\<close>

lemma digit_char_val: "is_digit c \<Longrightarrow> digit_char (digit_val c) = c"
  by (auto simp: is_digit_def digit_val_def digit_char_def)

lemma digit_val_lt: "is_digit c \<Longrightarrow> digit_val c < 10"
  by (auto simp: is_digit_def digit_val_def)

lemma digit_char_step: "digit_char (k * 10 + d) = digit_char d"
  by (simp add: digit_char_def)

lemma show_nat_digit: "d < 10 \<Longrightarrow> show_nat d = [digit_char d]"
  by (simp add: show_nat.simps)

lemma show_nat_step: "0 < k \<Longrightarrow> d < 10 \<Longrightarrow> show_nat (k * 10 + d) = show_nat k @ [digit_char d]"
  by (subst show_nat.simps) (simp add: digit_char_step)

lemma zero_pad_digit: "d < 10 \<Longrightarrow> zero_pad (Suc w) d = replicate w (CHR ''0'') @ [digit_char d]"
  by (simp add: zero_pad_def show_nat_digit)

lemma zero_pad_step:
  assumes "d < 10" "0 < w"
  shows "zero_pad (Suc w) (k * 10 + d) = zero_pad w k @ [digit_char d]"
proof (cases "k = 0")
  case True
  obtain v where w: "w = Suc v" using assms(2) by (cases w) auto
  have "zero_pad w 0 = replicate w (CHR ''0'')"
    by (simp add: w zero_pad_digit digit_char_def replicate_append_same)
  then show ?thesis using True assms(1) by (simp add: zero_pad_digit)
next
  case False
  then show ?thesis using assms(1)
    by (simp add: zero_pad_def show_nat_step Suc_diff_le)
qed

lemma zero_pad_4_digits:
  assumes "is_digit a" "is_digit b" "is_digit c" "is_digit d"
  shows "zero_pad 4 (((digit_val a * 10 + digit_val b) * 10 + digit_val c) * 10 + digit_val d) = [a, b, c, d]"
proof -
  have "zero_pad (Suc (Suc (Suc (Suc 0)))) (((digit_val a * 10 + digit_val b) * 10 + digit_val c) * 10 + digit_val d) = [a, b, c, d]"
    using assms by (simp only: zero_pad_step zero_pad_digit digit_val_lt digit_char_val
        zero_less_Suc replicate.simps append.simps)
  moreover have "(4::nat) = Suc (Suc (Suc (Suc 0)))" by simp
  ultimately show ?thesis by (simp only:)
qed

lemma zero_pad_2_digits:
  assumes "is_digit a" "is_digit b"
  shows "zero_pad 2 (digit_val a * 10 + digit_val b) = [a, b]"
proof -
  have "zero_pad (Suc (Suc 0)) (digit_val a * 10 + digit_val b) = [a, b]"
    using assms by (simp only: zero_pad_step zero_pad_digit digit_val_lt digit_char_val
        zero_less_Suc replicate.simps append.simps)
  moreover have "(2::nat) = Suc (Suc 0)" by simp
  ultimately show ?thesis by (simp only:)
qed

lemma len10: "length s = 10 \<Longrightarrow> \<exists>a b c d e f g h i j. s = [a,b,c,d,e,f,g,h,i,j]"
  by (auto simp: length_Suc_conv eval_nat_numeral)

lemma is_digit_ascii: "is_digit c \<Longrightarrow> (of_char c :: nat) < 128"
  by (auto simp: is_digit_def)

lemma is_digit_not_letter: "is_digit c \<Longrightarrow> c \<noteq> CHR ''W'' \<and> c \<noteq> CHR ''-''"
  by (auto simp: is_digit_def)

lemma parse_extended_format:
  assumes "is_digit y1" "is_digit y2" "is_digit y3" "is_digit y4"
    "is_digit m1" "is_digit m2" "is_digit d1" "is_digit d2"
  shows "fromisoformat [y1, y2, y3, y4, CHR ''-'', m1, m2, CHR ''-'', d1, d2]
    = date_new (((digit_val y1 * 10 + digit_val y2) * 10 + digit_val y3) * 10 + digit_val y4)
        (digit_val m1 * 10 + digit_val m2) (digit_val d1 * 10 + digit_val d2)"
proof -
  have len: "utf8_length [y1, y2, y3, y4, CHR ''-'', m1, m2, CHR ''-'', d1, d2] = 10"
    using assms by (simp add: utf8_length_def is_digit_ascii)
  have "parse_isoformat_date [y1, y2, y3, y4, CHR ''-'', m1, m2, CHR ''-'', d1, d2]
    = Some (((digit_val y1 * 10 + digit_val y2) * 10 + digit_val y3) * 10 + digit_val y4,
        digit_val m1 * 10 + digit_val m2, digit_val d1 * 10 + digit_val d2)"
    using assms is_digit_not_letter[OF assms(5)]
    by (simp add: parse_isoformat_date_def parse_digits_n_def Let_def)
  then show ?thesis by (simp add: fromisoformat_def len)
qed

lemma isoformat_fromisoformat:
  assumes f: "iso_extended_format s" and a: "fromisoformat s = Some d"
  shows "isoformat d = s"
proof -
  from f have "length s = 10" by (simp add: iso_extended_format_def)
  then have "\<exists>a b c d e f g h i j. s = [a,b,c,d,e,f,g,h,i,j]" by (rule len10)
  then obtain y1 y2 y3 y4 s1 m1 m2 s2 d1 d2 where s: "s = [y1,y2,y3,y4,s1,m1,m2,s2,d1,d2]"
    by (elim exE)
  from f have sep: "s1 = CHR ''-''" "s2 = CHR ''-''"
    and dg: "is_digit y1" "is_digit y2" "is_digit y3" "is_digit y4"
      "is_digit m1" "is_digit m2" "is_digit d1" "is_digit d2"
    by (simp_all add: iso_extended_format_def s)
  let ?y = "((digit_val y1 * 10 + digit_val y2) * 10 + digit_val y3) * 10 + digit_val y4"
  let ?m = "digit_val m1 * 10 + digit_val m2"
  let ?d = "digit_val d1 * 10 + digit_val d2"
  from a have "date_new ?y ?m ?d = Some d"
    by (simp only: s sep parse_extended_format[OF dg])
  then have d_eq: "d = \<lparr>year = ?y, month = ?m, day = ?d\<rparr>"
    by (auto simp: date_new_def split: if_splits)
  have "zero_pad 4 ?y = [y1,y2,y3,y4]" using dg by (simp only: zero_pad_4_digits)
  moreover have "zero_pad 2 ?m = [m1,m2]" using dg by (simp only: zero_pad_2_digits)
  moreover have "zero_pad 2 ?d = [d1,d2]" using dg by (simp only: zero_pad_2_digits)
  ultimately show ?thesis by (simp add: isoformat_def d_eq s sep)
qed

text \<open>Facts for running the date parser on sample texts.\<close>

lemmas run_dates = fromisoformat_def utf8_length_def parse_isoformat_date_def parse_digits_n_def
  is_digit_def digit_val_def date_new_def days_in_month_def is_leap_def Let_def

lemma sample_dates:
  "fromisoformat ''2024-12-31'' = Some \<lparr>year = 2024, month = 12, day = 31\<rparr>"
  "fromisoformat ''20241231'' = Some \<lparr>year = 2024, month = 12, day = 31\<rparr>"
  "fromisoformat ''31/12/2024'' = None"
  "fromisoformat ''2024-01-01'' = Some \<lparr>year = 2024, month = 1, day = 1\<rparr>"
  "fromisoformat [] = None"
  by (simp_all add: run_dates)

lemma sample_formats:
  "iso_extended_format ''2024-12-31''" "iso_extended_format ''2024-01-01''"
  "\<not> iso_extended_format ''20241231''" "\<not> iso_extended_format ''2024-W01-1''"
  "\<not> iso_extended_format ''  ''"
  by (simp_all add: iso_extended_format_def is_digit_def)

lemma sample_isoformat:
  "isoformat \<lparr>year = 2024, month = 12, day = 31\<rparr> = ''2024-12-31''"
  "isoformat \<lparr>year = 2024, month = 1, day = 1\<rparr> = ''2024-01-01''"
  by (rule isoformat_fromisoformat, rule sample_formats, rule sample_dates)+

lemma sample_week_date:
  "fromisoformat ''2024-W01-1'' = Some \<lparr>year = 2024, month = 1, day = 1\<rparr>"
  by (simp add: run_dates iso_to_ymd_def ymd_to_ord_def days_before_year_def days_before_month_def
      iso_week1_monday_def ord_to_ymd_def)

section \<open>Properties of the validation\<close>

lemma check_required_append: "check_required xs errs = errs @ check_required xs []"
proof (induction xs arbitrary: errs)
  case Nil
  then show ?case by simp
next
  case (Cons x xs)
  obtain label v where x: "x = (label, v)" by (cases x)
  show ?case
    unfolding x check_required.simps
    by (subst Cons.IH, subst (2) Cons.IH) simp
qed

lemma check_calibration_append:
  "snd (check_calibration raw errs) = errs @ snd (check_calibration raw [])"
  "fst (check_calibration raw errs) = fst (check_calibration raw [])"
  by (simp_all add: check_calibration_def split: option.splits)

lemma check_temperature_append:
  "snd (check_temperature L raw errs) = errs @ snd (check_temperature L raw [])"
  "fst (check_temperature L raw errs) = fst (check_temperature L raw [])"
  by (simp_all add: check_temperature_def split: option.splits)

lemma check_pressure_append:
  "snd (check_pressure L raw errs) = errs @ snd (check_pressure L raw [])"
  "fst (check_pressure L raw errs) = fst (check_pressure L raw [])"
  by (simp_all add: check_pressure_def split: option.splits)

lemma check_follow_up_append:
  "check_follow_up b a errs = errs @ check_follow_up b a []"
  by (simp add: check_follow_up_def)

lemma errors_validate:
  "errors (validate L f) =
     check_required (required_fields f) []
     @ snd (check_calibration (calibration_due_raw f) [])
     @ snd (check_temperature L (temperature_raw f) [])
     @ snd (check_pressure L (pressure_raw f) [])
     @ check_follow_up (follow_up_required f) (follow_up_actions f) []"
  unfolding validate_def Let_def
  apply (simp add: split_beta)
  apply (subst check_follow_up_append)
  apply (subst check_pressure_append(1))
  apply (subst check_temperature_append(1))
  apply (subst check_calibration_append(1))
  apply simp
  done

lemma values_validate:
  "calibration_due_value (validate L f) = fst (check_calibration (calibration_due_raw f) [])"
  "temperature_value (validate L f) = fst (check_temperature L (temperature_raw f) [])"
  "pressure_value (validate L f) = fst (check_pressure L (pressure_raw f) [])"
  unfolding validate_def Let_def
  by (simp_all add: split_beta check_calibration_append(2)[of _ "check_required _ _"]
        check_temperature_append(2)[of _ _ "snd _"] check_pressure_append(2)[of _ _ "snd _"])

lemma required_errors:
  "check_required (required_fields f) [] =
     (if strip (facility_name f) = [] then [''Facility name is required.''] else [])
     @ (if strip (nurse_name f) = [] then [''Inspector name is required.''] else [])
     @ (if strip (machine_id f) = [] then [''Equipment ID is required.''] else [])
     @ (if strip (room_location f) = [] then [''Location is required.''] else [])"
  by (simp add: required_fields_def truthy_def)

lemma calibration_errors:
  "snd (check_calibration raw []) =
     (if strip raw \<noteq> [] \<and> fromisoformat (strip raw) = None
      then [''Calibration due date must follow YYYY-MM-DD format.''] else [])"
  by (simp add: check_calibration_def truthy_def split: option.splits)

lemma temperature_errors:
  "snd (check_temperature L raw []) =
     (if strip raw \<noteq> [] \<and> py_float L (strip raw) = None
      then [''Temperature must be recorded as a number (e.g. 4.5).''] else [])"
  by (simp add: check_temperature_def truthy_def split: option.splits)

lemma pressure_errors:
  "snd (check_pressure L raw []) =
     (if strip raw \<noteq> [] \<and> py_float L (strip raw) = None
      then [''Pressure must be recorded as a number (e.g. 101.3).''] else [])"
  by (simp add: check_pressure_def truthy_def split: option.splits)

lemma follow_up_errors:
  "check_follow_up required actions [] =
     (if required \<and> strip actions = []
      then [''Provide follow-up actions when follow-up is marked as required.''] else [])"
  by (simp add: check_follow_up_def truthy_def)

lemmas errors_cases =
  errors_validate required_errors calibration_errors temperature_errors pressure_errors
  follow_up_errors

text \<open>
  Claim C1. Each of the four required text fields (facility name, inspector name,
  equipment id, location) that is empty after trimming puts exactly one message
  \<open><label> is required.\<close> into the error list, a field that is not empty puts none,
  every field is checked whatever the others hold, and the error list is not empty as
  soon as one of them is empty after trimming.
\<close>
theorem required_text_fields_checked:
  "count_list (errors (validate L f)) ''Facility name is required.''
     = (if strip (facility_name f) = [] then 1 else 0)
   \<and> count_list (errors (validate L f)) ''Inspector name is required.''
     = (if strip (nurse_name f) = [] then 1 else 0)
   \<and> count_list (errors (validate L f)) ''Equipment ID is required.''
     = (if strip (machine_id f) = [] then 1 else 0)
   \<and> count_list (errors (validate L f)) ''Location is required.''
     = (if strip (room_location f) = [] then 1 else 0)
   \<and> (strip (facility_name f) = [] \<or> strip (nurse_name f) = [] \<or> strip (machine_id f) = []
        \<or> strip (room_location f) = [] \<longrightarrow> errors (validate L f) \<noteq> [])"
proof (intro conjI)
  show "count_list (errors (validate L f)) ''Facility name is required.''
     = (if strip (facility_name f) = [] then 1 else 0)"
    by (simp add: errors_cases)
  show "count_list (errors (validate L f)) ''Inspector name is required.''
     = (if strip (nurse_name f) = [] then 1 else 0)"
    by (simp add: errors_cases)
  show "count_list (errors (validate L f)) ''Equipment ID is required.''
     = (if strip (machine_id f) = [] then 1 else 0)"
    by (simp add: errors_cases)
  show "count_list (errors (validate L f)) ''Location is required.''
     = (if strip (room_location f) = [] then 1 else 0)"
    by (simp add: errors_cases)
  show "strip (facility_name f) = [] \<or> strip (nurse_name f) = [] \<or> strip (machine_id f) = []
        \<or> strip (room_location f) = [] \<longrightarrow> errors (validate L f) \<noteq> []"
    by (auto simp add: errors_validate required_errors)
qed


lemma bound_payload:
  "bound (build_payload e f v) ''facility_name'' = strip (facility_name f)"
  "bound (build_payload e f v) ''nurse_name'' = strip (nurse_name f)"
  "bound (build_payload e f v) ''machine_id'' = strip (machine_id f)"
  "bound (build_payload e f v) ''room_location'' = strip (room_location f)"
  "bound (build_payload e f v) ''issues_noted'' = strip (issues_noted f)"
  "bound (build_payload e f v) ''follow_up_actions'' = strip (follow_up_actions f)"
  "bound (build_payload e f v) ''alarms_functional'' = bool_to_str (alarms_functional f)"
  "bound (build_payload e f v) ''calibration_confirmed'' = bool_to_str (calibration_confirmed f)"
  "bound (build_payload e f v) ''follow_up_required'' = bool_to_str (follow_up_required f)"
  "bound (build_payload e f v) ''calibration_due_date'' = or_empty (calibration_due_value v)"
  "bound (build_payload e f v) ''temperature_celsius'' = temperature_value v"
  "bound (build_payload e f v) ''pressure_kpa'' = pressure_value v"
  by (simp_all add: bound_def build_payload_def)

lemma payload_all_bound:
  "list_all (\<lambda>name. map_of (build_payload e f v) name \<noteq> None) insert_parameter_names"
  unfolding insert_parameter_names_def build_payload_def by simp

lemma insert_values_payload:
  "\<exists>row. insert_values W (build_payload e f v) = Some row
     \<and> col_alarms_functional row = Some (sql_is_true (bool_to_str (alarms_functional f)))
     \<and> col_calibration_confirmed row = Some (sql_is_true (bool_to_str (calibration_confirmed f)))
     \<and> col_follow_up_required row = Some (sql_is_true (bool_to_str (follow_up_required f)))
     \<and> col_calibration_due_date row = sql_date_or_null W (or_empty (calibration_due_value v))
     \<and> col_temperature_celsius row = sql_double_or_null W (temperature_value v)
     \<and> col_pressure_kpa row = sql_double_or_null W (pressure_value v)"
  using payload_all_bound[of e f v] by (simp add: insert_values_def bound_payload)

text \<open>
  Claim C5. With the follow-up toggle on and follow-up actions that are empty after
  trimming, validation fails with the follow-up message, once. With the toggle off the
  message is never given and the whole outcome of the validation is the same whatever
  the follow-up actions hold.
\<close>
theorem follow_up_actions_required_with_flag:
  "(follow_up_required f \<and> strip (follow_up_actions f) = [] \<longrightarrow>
      errors (validate L f) \<noteq> []
      \<and> count_list (errors (validate L f))
           ''Provide follow-up actions when follow-up is marked as required.'' = 1)
   \<and> (\<not> follow_up_required f \<longrightarrow>
      ''Provide follow-up actions when follow-up is marked as required.'' \<notin> set (errors (validate L f))
      \<and> validate L (f\<lparr>follow_up_actions := a\<rparr>) = validate L f)"
proof (intro conjI impI)
  assume a: "follow_up_required f \<and> strip (follow_up_actions f) = []"
  then show "errors (validate L f) \<noteq> []"
    by (simp add: errors_validate follow_up_errors)
  from a show "count_list (errors (validate L f))
           ''Provide follow-up actions when follow-up is marked as required.'' = 1"
    by (simp add: errors_cases)
next
  assume n: "\<not> follow_up_required f"
  then show "''Provide follow-up actions when follow-up is marked as required.'' \<notin> set (errors (validate L f))"
    by (simp add: errors_cases)
  from n show "validate L (f\<lparr>follow_up_actions := a\<rparr>) = validate L f"
    by (simp add: validate_def required_fields_def check_follow_up_def)
qed

text \<open>
  Claim C3, as the script has it. The raw text is trimmed first. Text that is not empty
  after trimming and that \<open>date.fromisoformat\<close> rejects fails validation with the
  date format message; text that is empty after trimming is valid, gives no value, and
  the warehouse stores null for it; text that \<open>date.fromisoformat\<close> accepts is valid
  and its value is the parsed date printed by \<open>isoformat\<close>, which for a text of the
  form \<open>YYYY-MM-DD\<close> is the trimmed text itself; and for every string of the form
  \<open>YYYY-MM-DD\<close> that parses as a date, printing the date gives the string back.
\<close>
theorem calibration_due_date_checked:
  "(strip (calibration_due_raw f) \<noteq> [] \<and> fromisoformat (strip (calibration_due_raw f)) = None \<longrightarrow>
      errors (validate L f) \<noteq> []
      \<and> count_list (errors (validate L f)) ''Calibration due date must follow YYYY-MM-DD format.'' = 1)
   \<and> (strip (calibration_due_raw f) = [] \<longrightarrow>
      ''Calibration due date must follow YYYY-MM-DD format.'' \<notin> set (errors (validate L f))
      \<and> calibration_due_value (validate L f) = None
      \<and> bound (build_payload e f (validate L f)) ''calibration_due_date'' = []
      \<and> map_option col_calibration_due_date (insert_values W (build_payload e f (validate L f)))
          = Some None)
   \<and> (\<forall>d. fromisoformat (strip (calibration_due_raw f)) = Some d \<longrightarrow>
      ''Calibration due date must follow YYYY-MM-DD format.'' \<notin> set (errors (validate L f))
      \<and> calibration_due_value (validate L f) = Some (isoformat d))
   \<and> (\<forall>d. iso_extended_format (strip (calibration_due_raw f))
          \<and> fromisoformat (strip (calibration_due_raw f)) = Some d \<longrightarrow>
      calibration_due_value (validate L f) = Some (strip (calibration_due_raw f)))
   \<and> (\<forall>s d. iso_extended_format s \<and> fromisoformat s = Some d \<longrightarrow> isoformat d = s)"
proof (intro conjI impI allI)
  assume a: "strip (calibration_due_raw f) \<noteq> [] \<and> fromisoformat (strip (calibration_due_raw f)) = None"
  then show "errors (validate L f) \<noteq> []"
    by (simp add: errors_validate calibration_errors)
  from a show "count_list (errors (validate L f)) ''Calibration due date must follow YYYY-MM-DD format.'' = 1"
    by (simp add: errors_cases)
next
  assume e: "strip (calibration_due_raw f) = []"
  then show "''Calibration due date must follow YYYY-MM-DD format.'' \<notin> set (errors (validate L f))"
    by (simp add: errors_cases)
  from e show v: "calibration_due_value (validate L f) = None"
    by (simp add: values_validate check_calibration_def truthy_def)
  then show "bound (build_payload e f (validate L f)) ''calibration_due_date'' = []"
    by (simp add: bound_payload or_empty_def)
  from v insert_values_payload[of W e f "validate L f"]
  show "map_option col_calibration_due_date (insert_values W (build_payload e f (validate L f))) = Some None"
    by (auto simp: or_empty_def sql_date_or_null_def)
next
  fix d
  assume p: "fromisoformat (strip (calibration_due_raw f)) = Some d"
  then show "''Calibration due date must follow YYYY-MM-DD format.'' \<notin> set (errors (validate L f))"
    by (simp add: errors_cases)
  from p have "strip (calibration_due_raw f) \<noteq> []"
    by (auto simp: fromisoformat_def utf8_length_def)
  with p show "calibration_due_value (validate L f) = Some (isoformat d)"
    by (simp add: values_validate check_calibration_def truthy_def)
next
  fix d
  assume p: "iso_extended_format (strip (calibration_due_raw f))
          \<and> fromisoformat (strip (calibration_due_raw f)) = Some d"
  then have r: "isoformat d = strip (calibration_due_raw f)"
    by (simp add: isoformat_fromisoformat)
  from p have "strip (calibration_due_raw f) \<noteq> []"
    by (auto simp: iso_extended_format_def)
  with p r show "calibration_due_value (validate L f) = Some (strip (calibration_due_raw f))"
    by (simp add: values_validate check_calibration_def truthy_def)
next
  fix s d
  assume "iso_extended_format s \<and> fromisoformat s = Some d"
  then show "isoformat d = s" by (simp add: isoformat_fromisoformat)
qed

text \<open>
  Claim C4, as the script has it. For the temperature and for the pressure: text that
  is empty after trimming gives no error and the warehouse stores null; text that
  Python's \<open>float\<close> accepts (a decimal literal, or one of the special values
  \<open>inf\<close>, \<open>infinity\<close> and \<open>nan\<close>) gives no error, the parameter is the printed
  float, and the warehouse stores that float whenever its cast reads the printed float
  back; text that is not empty after trimming and that \<open>float\<close> rejects fails
  validation with the message of the field, once.
\<close>
theorem numeric_readings_checked:
  "(strip (temperature_raw f) = [] \<longrightarrow>
      ''Temperature must be recorded as a number (e.g. 4.5).'' \<notin> set (errors (validate L f))
      \<and> map_option col_temperature_celsius (insert_values W (build_payload e f (validate L f)))
          = Some None)
   \<and> (\<forall>x. strip (temperature_raw f) \<noteq> [] \<and> py_float L (strip (temperature_raw f)) = Some x \<longrightarrow>
      ''Temperature must be recorded as a number (e.g. 4.5).'' \<notin> set (errors (validate L f))
      \<and> bound (build_payload e f (validate L f)) ''temperature_celsius'' = py_str L x
      \<and> (py_str L x \<noteq> [] \<and> try_cast_double W (py_str L x) = Some x \<longrightarrow>
           map_option col_temperature_celsius (insert_values W (build_payload e f (validate L f)))
             = Some (Some x)))
   \<and> (strip (temperature_raw f) \<noteq> [] \<and> py_float L (strip (temperature_raw f)) = None \<longrightarrow>
      errors (validate L f) \<noteq> []
      \<and> count_list (errors (validate L f)) ''Temperature must be recorded as a number (e.g. 4.5).'' = 1)
   \<and> (strip (pressure_raw f) = [] \<longrightarrow>
      ''Pressure must be recorded as a number (e.g. 101.3).'' \<notin> set (errors (validate L f))
      \<and> map_option col_pressure_kpa (insert_values W (build_payload e f (validate L f)))
          = Some None)
   \<and> (\<forall>x. strip (pressure_raw f) \<noteq> [] \<and> py_float L (strip (pressure_raw f)) = Some x \<longrightarrow>
      ''Pressure must be recorded as a number (e.g. 101.3).'' \<notin> set (errors (validate L f))
      \<and> bound (build_payload e f (validate L f)) ''pressure_kpa'' = py_str L x
      \<and> (py_str L x \<noteq> [] \<and> try_cast_double W (py_str L x) = Some x \<longrightarrow>
           map_option col_pressure_kpa (insert_values W (build_payload e f (validate L f)))
             = Some (Some x)))
   \<and> (strip (pressure_raw f) \<noteq> [] \<and> py_float L (strip (pressure_raw f)) = None \<longrightarrow>
      errors (validate L f) \<noteq> []
      \<and> count_list (errors (validate L f)) ''Pressure must be recorded as a number (e.g. 101.3).'' = 1)"
proof -
  note row = insert_values_payload[of W e f "validate L f"]
  have t1: "strip (temperature_raw f) = [] \<Longrightarrow> temperature_value (validate L f) = []"
    by (simp add: values_validate check_temperature_def truthy_def)
  have t2: "\<And>x. strip (temperature_raw f) \<noteq> [] \<Longrightarrow> py_float L (strip (temperature_raw f)) = Some x
      \<Longrightarrow> temperature_value (validate L f) = py_str L x"
    by (simp add: values_validate check_temperature_def truthy_def)
  have p1: "strip (pressure_raw f) = [] \<Longrightarrow> pressure_value (validate L f) = []"
    by (simp add: values_validate check_pressure_def truthy_def)
  have p2: "\<And>x. strip (pressure_raw f) \<noteq> [] \<Longrightarrow> py_float L (strip (pressure_raw f)) = Some x
      \<Longrightarrow> pressure_value (validate L f) = py_str L x"
    by (simp add: values_validate check_pressure_def truthy_def)
  show ?thesis
  proof (intro conjI impI allI)
    assume a: "strip (temperature_raw f) = []"
    then show "''Temperature must be recorded as a number (e.g. 4.5).'' \<notin> set (errors (validate L f))"
      by (simp add: errors_cases)
    from row t1[OF a]
    show "map_option col_temperature_celsius (insert_values W (build_payload e f (validate L f))) = Some None"
      by (auto simp: sql_double_or_null_def sql_nullif_def)
  next
    fix x
    assume a: "strip (temperature_raw f) \<noteq> [] \<and> py_float L (strip (temperature_raw f)) = Some x"
    then show "''Temperature must be recorded as a number (e.g. 4.5).'' \<notin> set (errors (validate L f))"
      by (simp add: errors_cases)
    from a t2 show "bound (build_payload e f (validate L f)) ''temperature_celsius'' = py_str L x"
      by (simp add: bound_payload)
    assume "py_str L x \<noteq> [] \<and> try_cast_double W (py_str L x) = Some x"
    with row a t2
    show "map_option col_temperature_celsius (insert_values W (build_payload e f (validate L f))) = Some (Some x)"
      by (auto simp: sql_double_or_null_def sql_nullif_def)
  next
    assume a: "strip (temperature_raw f) \<noteq> [] \<and> py_float L (strip (temperature_raw f)) = None"
    then show "errors (validate L f) \<noteq> []"
      by (simp add: errors_validate temperature_errors)
    from a show "count_list (errors (validate L f)) ''Temperature must be recorded as a number (e.g. 4.5).'' = 1"
      by (simp add: errors_cases)
  next
    assume a: "strip (pressure_raw f) = []"
    then show "''Pressure must be recorded as a number (e.g. 101.3).'' \<notin> set (errors (validate L f))"
      by (simp add: errors_cases)
    from row p1[OF a]
    show "map_option col_pressure_kpa (insert_values W (build_payload e f (validate L f))) = Some None"
      by (auto simp: sql_double_or_null_def sql_nullif_def)
  next
    fix x
    assume a: "strip (pressure_raw f) \<noteq> [] \<and> py_float L (strip (pressure_raw f)) = Some x"
    then show "''Pressure must be recorded as a number (e.g. 101.3).'' \<notin> set (errors (validate L f))"
      by (simp add: errors_cases)
    from a p2 show "bound (build_payload e f (validate L f)) ''pressure_kpa'' = py_str L x"
      by (simp add: bound_payload)
    assume "py_str L x \<noteq> [] \<and> try_cast_double W (py_str L x) = Some x"
    with row a p2
    show "map_option col_pressure_kpa (insert_values W (build_payload e f (validate L f))) = Some (Some x)"
      by (auto simp: sql_double_or_null_def sql_nullif_def)
  next
    assume a: "strip (pressure_raw f) \<noteq> [] \<and> py_float L (strip (pressure_raw f)) = None"
    then show "errors (validate L f) \<noteq> []"
      by (simp add: errors_validate pressure_errors)
    from a show "count_list (errors (validate L f)) ''Pressure must be recorded as a number (e.g. 101.3).'' = 1"
      by (simp add: errors_cases)
  qed
qed

text \<open>Facts for running the model on the sample inputs.\<close>

lemmas run_strings = strip_def lstrip_def rstrip_def py_isspace_def truthy_def

lemmas run_numbers = sample_lib_def sample_warehouse_def sample_float_def is_digit_def digit_val_def
  show_int_def show_nat.simps digit_char_def Let_def py_float_def ascii_lower_def

text \<open>The form with a blank facility name and no equipment id: two of the four messages.\<close>
theorem required_text_fields_checked_witness:
  "strip (facility_name (sample_form\<lparr>facility_name := ''  '', machine_id := []\<rparr>)) = []
   \<and> count_list (errors (validate sample_lib (sample_form\<lparr>facility_name := ''  '', machine_id := []\<rparr>)))
        ''Facility name is required.'' = 1
   \<and> count_list (errors (validate sample_lib (sample_form\<lparr>facility_name := ''  '', machine_id := []\<rparr>)))
        ''Inspector name is required.'' = 0
   \<and> count_list (errors (validate sample_lib (sample_form\<lparr>facility_name := ''  '', machine_id := []\<rparr>)))
        ''Equipment ID is required.'' = 1
   \<and> count_list (errors (validate sample_lib (sample_form\<lparr>facility_name := ''  '', machine_id := []\<rparr>)))
        ''Location is required.'' = 0
   \<and> errors (validate sample_lib (sample_form\<lparr>facility_name := ''  '', machine_id := []\<rparr>)) \<noteq> []"
  using required_text_fields_checked
    [of sample_lib "sample_form\<lparr>facility_name := ''  '', machine_id := []\<rparr>"]
  by (simp add: sample_form_def run_strings)

text \<open>The sample form with the toggle on and blank actions, and with the toggle off.\<close>
theorem follow_up_actions_required_with_flag_witness:
  "follow_up_required (sample_form\<lparr>follow_up_required := True, follow_up_actions := '' ''\<rparr>)
   \<and> strip (follow_up_actions (sample_form\<lparr>follow_up_required := True, follow_up_actions := '' ''\<rparr>)) = []
   \<and> errors (validate sample_lib (sample_form\<lparr>follow_up_required := True, follow_up_actions := '' ''\<rparr>)) \<noteq> []
   \<and> count_list (errors (validate sample_lib (sample_form\<lparr>follow_up_required := True, follow_up_actions := '' ''\<rparr>)))
        ''Provide follow-up actions when follow-up is marked as required.'' = 1
   \<and> \<not> follow_up_required sample_form
   \<and> ''Provide follow-up actions when follow-up is marked as required.''
        \<notin> set (errors (validate sample_lib sample_form))
   \<and> validate sample_lib (sample_form\<lparr>follow_up_actions := ''call the vendor''\<rparr>)
        = validate sample_lib sample_form"
  using follow_up_actions_required_with_flag
    [of "sample_form\<lparr>follow_up_required := True, follow_up_actions := '' ''\<rparr>" sample_lib "[]"]
    follow_up_actions_required_with_flag [of sample_form sample_lib "''call the vendor''"]
  by (simp add: sample_form_def run_strings)

text \<open>
  A date in another format, a blank field, the date of the sample form, and an ISO week
  date, which is accepted and sent as the Monday it names.
\<close>
theorem calibration_due_date_checked_witness:
  "strip (calibration_due_raw (sample_form\<lparr>calibration_due_raw := ''31/12/2024''\<rparr>)) \<noteq> []
   \<and> fromisoformat (strip (calibration_due_raw (sample_form\<lparr>calibration_due_raw := ''31/12/2024''\<rparr>))) = None
   \<and> count_list (errors (validate sample_lib (sample_form\<lparr>calibration_due_raw := ''31/12/2024''\<rparr>)))
        ''Calibration due date must follow YYYY-MM-DD format.'' = 1
   \<and> strip (calibration_due_raw (sample_form\<lparr>calibration_due_raw := ''  ''\<rparr>)) = []
   \<and> calibration_due_value (validate sample_lib (sample_form\<lparr>calibration_due_raw := ''  ''\<rparr>)) = None
   \<and> iso_extended_format (strip (calibration_due_raw sample_form))
   \<and> fromisoformat (strip (calibration_due_raw sample_form)) = Some \<lparr>year = 2024, month = 12, day = 31\<rparr>
   \<and> calibration_due_value (validate sample_lib sample_form) = Some ''2024-12-31''
   \<and> isoformat \<lparr>year = 2024, month = 12, day = 31\<rparr> = ''2024-12-31''
   \<and> fromisoformat (strip (calibration_due_raw (sample_form\<lparr>calibration_due_raw := ''2024-W01-1''\<rparr>)))
       = Some \<lparr>year = 2024, month = 1, day = 1\<rparr>
   \<and> calibration_due_value (validate sample_lib (sample_form\<lparr>calibration_due_raw := ''2024-W01-1''\<rparr>))
       = Some ''2024-01-01''"
proof -
  have s1: "strip ''31/12/2024'' = ''31/12/2024''" and s2: "strip ''  '' = []"
    and s3: "strip ''2024-12-31'' = ''2024-12-31''" and s4: "strip ''2024-W01-1'' = ''2024-W01-1''"
    by (simp_all add: run_strings)
  show ?thesis
    using calibration_due_date_checked
        [of "sample_form\<lparr>calibration_due_raw := ''31/12/2024''\<rparr>" sample_lib None sample_warehouse]
      calibration_due_date_checked
        [of "sample_form\<lparr>calibration_due_raw := ''  ''\<rparr>" sample_lib None sample_warehouse]
      calibration_due_date_checked [of sample_form sample_lib None sample_warehouse]
      calibration_due_date_checked
        [of "sample_form\<lparr>calibration_due_raw := ''2024-W01-1''\<rparr>" sample_lib None sample_warehouse]
    by (simp add: sample_form_def s1 s2 s3 s4 sample_dates sample_week_date sample_formats
        sample_isoformat)
qed

text \<open>
  Two texts that are not empty and are not of the form \<open>YYYY-MM-DD\<close>, each in the
  otherwise valid sample form: two blanks, for which the validation reports no error
  and gives no value; and the basic form \<open>20241231\<close>, for which the validation reports
  no error and sends \<open>2024-12-31\<close>.
\<close>
theorem calibration_due_date_counterexample:
  "calibration_due_raw (sample_form\<lparr>calibration_due_raw := ''  ''\<rparr>) \<noteq> []
   \<and> \<not> iso_extended_format (calibration_due_raw (sample_form\<lparr>calibration_due_raw := ''  ''\<rparr>))
   \<and> errors (validate sample_lib (sample_form\<lparr>calibration_due_raw := ''  ''\<rparr>)) = []
   \<and> calibration_due_value (validate sample_lib (sample_form\<lparr>calibration_due_raw := ''  ''\<rparr>)) = None
   \<and> calibration_due_raw (sample_form\<lparr>calibration_due_raw := ''20241231''\<rparr>) \<noteq> []
   \<and> \<not> iso_extended_format (calibration_due_raw (sample_form\<lparr>calibration_due_raw := ''20241231''\<rparr>))
   \<and> errors (validate sample_lib (sample_form\<lparr>calibration_due_raw := ''20241231''\<rparr>)) = []
   \<and> calibration_due_value (validate sample_lib (sample_form\<lparr>calibration_due_raw := ''20241231''\<rparr>))
       = Some ''2024-12-31''"
proof -
  have s: "strip ''  '' = []" "strip ''20241231'' = ''20241231''" "strip ''4'' = ''4''"
    "strip ''Sydney Processing Centre'' \<noteq> []" "strip ''Alex Smith'' \<noteq> []"
    "strip '' FX-2041 '' \<noteq> []" "strip ''Donor Room 3'' \<noteq> []" "strip [] = []"
    by (simp_all add: run_strings)
  have n: "py_float sample_lib ''4'' = Some (Finite 4)"
    by (simp add: run_numbers run_strings)
  show ?thesis
    by (simp add: errors_cases values_validate check_calibration_def truthy_def sample_form_def s n
        sample_dates sample_formats sample_isoformat)
qed

text \<open>The sample form: a temperature of 4, no pressure; and a temperature that is no number.\<close>
theorem numeric_readings_checked_witness:
  "strip (temperature_raw sample_form) \<noteq> []
   \<and> py_float sample_lib (strip (temperature_raw sample_form)) = Some (Finite 4)
   \<and> py_str sample_lib (Finite 4) = ''4.0''
   \<and> try_cast_double sample_warehouse ''4.0'' = Some (Finite 4)
   \<and> bound (build_payload None sample_form (validate sample_lib sample_form)) ''temperature_celsius'' = ''4.0''
   \<and> map_option col_temperature_celsius
        (insert_values sample_warehouse (build_payload None sample_form (validate sample_lib sample_form)))
       = Some (Some (Finite 4))
   \<and> strip (pressure_raw sample_form) = []
   \<and> map_option col_pressure_kpa
        (insert_values sample_warehouse (build_payload None sample_form (validate sample_lib sample_form)))
       = Some None
   \<and> py_float sample_lib (strip (temperature_raw (sample_form\<lparr>temperature_raw := ''warm''\<rparr>))) = None
   \<and> count_list (errors (validate sample_lib (sample_form\<lparr>temperature_raw := ''warm''\<rparr>)))
        ''Temperature must be recorded as a number (e.g. 4.5).'' = 1"
proof -
  have s: "strip ''4'' = ''4''" "strip [] = []" "strip ''warm'' = ''warm''"
    by (simp_all add: run_strings)
  have n: "py_float sample_lib ''4'' = Some (Finite 4)" "py_float sample_lib ''4.0'' = Some (Finite 4)"
    "py_float sample_lib ''warm'' = None" "show_int 4 @ ''.0'' = ''4.0''"
    by (simp_all add: run_numbers run_strings)
  have p: "repr_finite sample_lib 4 = ''4.0''"
    by (simp add: sample_lib_def show_int_def show_nat.simps digit_char_def)
  have w: "try_cast_double sample_warehouse = py_float sample_lib"
    by (simp add: sample_warehouse_def)
  show ?thesis
    using numeric_readings_checked [of sample_form sample_lib sample_warehouse None]
      numeric_readings_checked
        [of "sample_form\<lparr>temperature_raw := ''warm''\<rparr>" sample_lib sample_warehouse None]
    by (simp add: sample_form_def s n p w)
qed

lemma sql_lower_bool_to_str: "sql_lower (bool_to_str b) = bool_to_str b"
  by (simp add: sql_lower_def sql_lower_char_def bool_to_str_def)

lemma sql_is_true_bool_to_str: "sql_is_true (bool_to_str b) = b"
  by (simp add: sql_is_true_def sql_lower_bool_to_str) (simp add: bool_to_str_def)

text \<open>
  The temperature \<open>nan\<close>: the text is not empty and is not a number, \<open>float\<close>
  reads it as the special value, and the validation of the otherwise valid sample form
  reports no error and passes \<open>nan\<close> on as the parameter.
\<close>

theorem nan_reading_counterexample:
  "temperature_raw (sample_form\<lparr>temperature_raw := ''nan''\<rparr>) \<noteq> []
   \<and> py_float sample_lib (strip ''nan'') = Some NaN
   \<and> errors (validate sample_lib (sample_form\<lparr>temperature_raw := ''nan''\<rparr>)) = []
   \<and> bound (build_payload None (sample_form\<lparr>temperature_raw := ''nan''\<rparr>)
          (validate sample_lib (sample_form\<lparr>temperature_raw := ''nan''\<rparr>)))
        ''temperature_celsius'' = ''nan''"
proof -
  have s: "strip ''nan'' = ''nan''" by (simp add: run_strings)
  have n: "py_float sample_lib ''nan'' = Some NaN"
    by (simp add: py_float_def ascii_lower_def Let_def s)
  have e: "errors (validate sample_lib (sample_form\<lparr>temperature_raw := ''nan''\<rparr>)) = []"
    by (simp add: errors_cases sample_form_def s n)
      (simp add: run_strings sample_dates)
  have v: "temperature_value (validate sample_lib (sample_form\<lparr>temperature_raw := ''nan''\<rparr>)) = ''nan''"
    by (simp add: values_validate check_temperature_def truthy_def sample_form_def s n)
  show ?thesis
    by (simp add: s n e v bound_payload)
qed

section \<open>Properties of the payload and the insert\<close>

text \<open>
  Claim C8. Writing a boolean as \<open>true\<close> or \<open>false\<close> with \<open>bool_to_str\<close> and
  reading it at the warehouse with \<open>lower(x) = 'true'\<close> gives the boolean back; the
  literal is already in lower case; and the three boolean columns of the row inserted
  for a submission hold the three toggles of the form.
\<close>
theorem boolean_fields_round_trip:
  "sql_is_true (bool_to_str b) = b
   \<and> sql_lower (bool_to_str b) = bool_to_str b
   \<and> map_option col_alarms_functional (insert_values W (build_payload e f v))
        = Some (Some (alarms_functional f))
   \<and> map_option col_calibration_confirmed (insert_values W (build_payload e f v))
        = Some (Some (calibration_confirmed f))
   \<and> map_option col_follow_up_required (insert_values W (build_payload e f v))
        = Some (Some (follow_up_required f))"
  using insert_values_payload[of W e f v]
  by (auto simp: sql_is_true_bool_to_str sql_lower_bool_to_str)

text \<open>Both booleans, and the toggles of the sample form.\<close>
theorem boolean_fields_round_trip_witness:
  "sql_is_true (bool_to_str True) \<and> \<not> sql_is_true (bool_to_str False)
   \<and> bool_to_str True = ''true'' \<and> bool_to_str False = ''false''
   \<and> map_option col_alarms_functional
        (insert_values sample_warehouse (build_payload None sample_form (validate sample_lib sample_form)))
       = Some (Some True)
   \<and> map_option col_follow_up_required
        (insert_values sample_warehouse (build_payload None sample_form (validate sample_lib sample_form)))
       = Some (Some False)"
  using boolean_fields_round_trip [of True sample_warehouse None sample_form "validate sample_lib sample_form"]
    boolean_fields_round_trip [of False sample_warehouse None sample_form "validate sample_lib sample_form"]
  by (simp add: bool_to_str_def sample_form_def)

lemma sent_requests_append: "sent_requests (xs @ ys) = sent_requests xs @ sent_requests ys"
  by (induction xs rule: sent_requests.induct) simp_all

lemma sent_requests_polls: "list_all is_poll ps \<Longrightarrow> sent_requests ps = []"
  by (induction ps rule: sent_requests.induct) simp_all

lemma poll_statement_log:
  assumes "poll_statement cl n current log = Some y"
  shows "\<exists>polls. snd y = log @ polls \<and> list_all is_poll polls"
proof (rule poll_statement.raw_induct
    [where P = "\<lambda>cl n current log y. \<exists>polls. snd y = log @ polls \<and> list_all is_poll polls",
     OF _ assms], goal_cases)
  case (1 poll cl n current log y)
  show ?case
  proof (cases "still_running (resp_status current)")
    case False
    with 1(2) show ?thesis by auto
  next
    case True
    show ?thesis
    proof (cases "get_statement cl n (resp_statement_id current)")
      case (Inl e)
      with True 1(2) show ?thesis by auto
    next
      case (Inr resp)
      with True 1(2) have "poll cl (Suc n) resp (log @ [GetStatement (resp_statement_id current)]) = Some y"
        by simp
      from 1(1)[OF this] obtain polls where
        "snd y = (log @ [GetStatement (resp_statement_id current)]) @ polls" "list_all is_poll polls"
        by blast
      then have "snd y = log @ (GetStatement (resp_statement_id current) # polls)
          \<and> list_all is_poll (GetStatement (resp_statement_id current) # polls)"
        by simp
      then show ?thesis by blast
    qed
  qed
qed

lemma execute_sql_log:
  assumes "execute_sql cl cfg statement parameters log = Some (r, log')"
  shows "\<exists>polls. log' = log @ ExecuteStatement (sql_request cfg (statement) (parameters)) # polls \<and> list_all is_poll polls"
proof -
  let ?req = "(sql_request cfg (statement) (parameters))"
  show ?thesis
  proof (cases "execute_statement cl ?req")
    case (Inl e)
    with assms show ?thesis by (auto simp: execute_sql_def Let_def)
  next
    case (Inr response)
    with assms obtain y where y: "poll_statement cl 0 response (log @ [ExecuteStatement ?req]) = Some y"
      and l: "snd y = log'"
      by (auto simp: execute_sql_def Let_def split: option.splits sum.splits if_splits)
    from poll_statement_log[OF y] l show ?thesis by auto
  qed
qed

lemma map_pair_id: "map (\<lambda>(name, v). (name, v)) xs = xs"
  by (induction xs) auto

lemma insert_submission_log:
  assumes "insert_submission cl cfg payload log = Some (r, log')"
  shows "\<exists>polls. log' = log @ ExecuteStatement (sql_request cfg (insert_statement cfg) (payload)) # polls \<and> list_all is_poll polls"
proof -
  from assms obtain r0 where "execute_sql cl cfg (insert_statement cfg) payload log = Some (r0, log')"
    by (auto simp: insert_submission_def map_pair_id split: option.splits sum.splits)
  then show ?thesis by (rule execute_sql_log)
qed

lemma insert_submission_sent:
  assumes "insert_submission cl cfg payload log = Some (r, log')"
  shows "sent_requests log' = sent_requests log @ [(sql_request cfg (insert_statement cfg) (payload))]"
  using insert_submission_log[OF assms]
  by (auto simp: sent_requests_append sent_requests_polls)

text \<open>
  Claim C9. Whatever the payloads of two calls of \<open>insert_submission\<close> that return
  are, each call hands one request to the warehouse, the statement of both requests is
  the same text, the insert statement of the configuration, and the payload travels as
  the list of named parameters of the request, item for item.
\<close>
theorem insert_statement_independent_of_values:
  assumes "insert_submission cl cfg p log = Some (r, log')"
      and "insert_submission cl' cfg p' lg = Some (r', lg')"
  shows "\<exists>q q'. sent_requests log' = sent_requests log @ [q]
           \<and> sent_requests lg' = sent_requests lg @ [q']
           \<and> req_statement q = insert_statement cfg
           \<and> req_statement q' = req_statement q
           \<and> req_parameters q = p
           \<and> req_parameters q' = p'"
  using insert_submission_sent[OF assms(1)] insert_submission_sent[OF assms(2)]
  by (simp add: sql_request_def)


lemma poll_statement_done:
  "\<not> still_running (resp_status current) \<Longrightarrow> poll_statement cl n current log = Some (Inr current, log)"
  by (subst poll_statement.simps) simp

lemma poll_statement_step:
  "still_running (resp_status current) \<Longrightarrow>
   get_statement cl n (resp_statement_id current) = Inr r \<Longrightarrow>
   poll_statement cl n current log
     = poll_statement cl (Suc n) r (log @ [GetStatement (resp_statement_id current)])"
  by (subst poll_statement.simps) simp

lemma poll_statement_raise:
  "still_running (resp_status current) \<Longrightarrow>
   get_statement cl n (resp_statement_id current) = Inl e \<Longrightarrow>
   poll_statement cl n current log
     = Some (Inl e, log @ [GetStatement (resp_statement_id current)])"
  by (subst poll_statement.simps) simp

lemma insert_prompt:
  "insert_submission (prompt_client d) cfg p log
     = Some (Inr (), log @ [ExecuteStatement (sql_request cfg (insert_statement cfg) (p))])"
  by (simp add: insert_submission_def execute_sql_def prompt_client_def poll_statement_done
      still_running_def succeeded_def succeeded_status_def map_pair_id Let_def)

text \<open>Two payloads, one of them with SQL in the facility name: the same statement.\<close>
theorem insert_statement_independent_of_values_witness:
  "insert_submission (prompt_client []) sample_config [(''facility_name'', ''Sydney'')] []
     = Some (Inr (), [ExecuteStatement
         (sql_request sample_config (insert_statement sample_config) [(''facility_name'', ''Sydney'')])])
   \<and> insert_submission (prompt_client []) sample_config [(''facility_name'', ''x'); DROP TABLE t; --'')] []
     = Some (Inr (), [ExecuteStatement
         (sql_request sample_config (insert_statement sample_config)
            [(''facility_name'', ''x'); DROP TABLE t; --'')])])
   \<and> (\<exists>q q'.
         sent_requests [ExecuteStatement
           (sql_request sample_config (insert_statement sample_config) [(''facility_name'', ''Sydney'')])]
           = sent_requests [] @ [q]
       \<and> sent_requests [ExecuteStatement
           (sql_request sample_config (insert_statement sample_config)
              [(''facility_name'', ''x'); DROP TABLE t; --'')])]
           = sent_requests [] @ [q']
       \<and> req_statement q = insert_statement sample_config
       \<and> req_statement q' = req_statement q
       \<and> req_parameters q = [(''facility_name'', ''Sydney'')]
       \<and> req_parameters q' = [(''facility_name'', ''x'); DROP TABLE t; --'')])"
proof -
  have a: "insert_submission (prompt_client []) sample_config [(''facility_name'', ''Sydney'')] []
     = Some (Inr (), [ExecuteStatement
         (sql_request sample_config (insert_statement sample_config) [(''facility_name'', ''Sydney'')])])"
    by (simp add: insert_prompt)
  have b: "insert_submission (prompt_client []) sample_config [(''facility_name'', ''x'); DROP TABLE t; --'')] []
     = Some (Inr (), [ExecuteStatement
         (sql_request sample_config (insert_statement sample_config)
            [(''facility_name'', ''x'); DROP TABLE t; --'')])])"
    by (simp add: insert_prompt)
  from insert_statement_independent_of_values[OF a b] a b show ?thesis by (intro conjI)
qed

lemma dropWhile_rev_prefix: "xs = rev (dropWhile P (rev xs)) @ rev (takeWhile P (rev xs))"
proof -
  have "rev (dropWhile P (rev xs)) @ rev (takeWhile P (rev xs))
      = rev (takeWhile P (rev xs) @ dropWhile P (rev xs))"
    by (simp only: rev_append)
  also have "\<dots> = rev (rev xs)" by (simp only: takeWhile_dropWhile_id)
  also have "\<dots> = xs" by (simp only: rev_rev_ident)
  finally show ?thesis by (rule sym)
qed

lemma trimmed_strip: "trimmed (strip s)"
proof (cases "strip s = []")
  case True
  then show ?thesis by (simp add: trimmed_def)
next
  case False
  let ?t = "dropWhile py_isspace s"
  let ?d = "dropWhile py_isspace (rev ?t)"
  have st: "strip s = rev ?d" by (simp add: strip_def lstrip_def rstrip_def)
  with False have d: "?d \<noteq> []" by simp
  then have l: "\<not> py_isspace (hd ?d)" by (rule hd_dropWhile)
  have last: "last (strip s) = hd ?d" using d by (simp add: st last_rev)
  have t: "?t \<noteq> []"
  proof
    assume e: "?t = []"
    have "?d = []" by (simp only: e rev.simps dropWhile.simps)
    with d show False by (rule notE)
  qed
  then have h: "\<not> py_isspace (hd ?t)" by (rule hd_dropWhile)
  have "?t = rev ?d @ rev (takeWhile py_isspace (rev ?t))" by (rule dropWhile_rev_prefix)
  then have "hd ?t = hd (rev ?d @ rev (takeWhile py_isspace (rev ?t)))" by (rule arg_cong)
  then have "hd ?t = hd (strip s)" using d by (simp add: st)
  with h l last False show ?thesis by (simp add: trimmed_def)
qed

lemma map_of_payload:
  "map_of (build_payload e f v) ''facility_name'' = Some (strip (facility_name f))"
  "map_of (build_payload e f v) ''nurse_name'' = Some (strip (nurse_name f))"
  "map_of (build_payload e f v) ''machine_id'' = Some (strip (machine_id f))"
  "map_of (build_payload e f v) ''room_location'' = Some (strip (room_location f))"
  "map_of (build_payload e f v) ''issues_noted'' = Some (strip (issues_noted f))"
  "map_of (build_payload e f v) ''follow_up_actions'' = Some (strip (follow_up_actions f))"
  by (simp_all add: build_payload_def)

lemma on_submit_rejected:
  "errors (validate L f) \<noteq> [] \<Longrightarrow>
   on_submit L cl cfg e f pg = Some (pg\<lparr>ui := ui pg @ map StError (errors (validate L f))\<rparr>)"
  by (simp add: on_submit_def Let_def)

lemma on_submit_accepted:
  assumes "errors (validate L f) = []" and "on_submit L cl cfg e f pg = Some pg'"
  shows "\<exists>r. insert_submission cl cfg (build_payload e f (validate L f)) (io_log pg) = Some (r, io_log pg')"
  using assms by (auto simp: on_submit_def Let_def split: option.splits sum.splits)

section \<open>Properties of the submit handler\<close>

text \<open>
  Claim C2. When the error list is not empty the handler returns with every message
  shown as an error, in order, and nothing else changed: the log of warehouse calls
  is untouched. A run that does not return or that makes a warehouse call had an empty
  error list; and with an empty error list, a run that returns has made exactly the
  call of the insert statement with the payload as parameters, followed by polls.
\<close>
theorem validation_guards_insert:
  "(errors (validate L f) \<noteq> [] \<longrightarrow>
      on_submit L cl cfg e f pg = Some (pg\<lparr>ui := ui pg @ map StError (errors (validate L f))\<rparr>))
   \<and> (on_submit L cl cfg e f pg = None \<longrightarrow> errors (validate L f) = [])
   \<and> (\<forall>pg'. on_submit L cl cfg e f pg = Some pg' \<and> io_log pg' \<noteq> io_log pg \<longrightarrow>
        errors (validate L f) = [])
   \<and> (\<forall>pg'. errors (validate L f) = [] \<and> on_submit L cl cfg e f pg = Some pg' \<longrightarrow>
        (\<exists>polls. io_log pg' = io_log pg @ ExecuteStatement
            (sql_request cfg (insert_statement cfg) (build_payload e f (validate L f))) # polls
          \<and> list_all is_poll polls))"
proof (intro conjI allI impI)
  assume "errors (validate L f) \<noteq> []"
  then show "on_submit L cl cfg e f pg = Some (pg\<lparr>ui := ui pg @ map StError (errors (validate L f))\<rparr>)"
    by (rule on_submit_rejected)
next
  assume n: "on_submit L cl cfg e f pg = None"
  show "errors (validate L f) = []"
  proof (rule ccontr)
    assume "errors (validate L f) \<noteq> []"
    from on_submit_rejected[OF this, of cl cfg e pg] n show False by simp
  qed
next
  fix pg'
  assume a: "on_submit L cl cfg e f pg = Some pg' \<and> io_log pg' \<noteq> io_log pg"
  show "errors (validate L f) = []"
  proof (rule ccontr)
    assume "errors (validate L f) \<noteq> []"
    from on_submit_rejected[OF this, of cl cfg e pg] a show False by auto
  qed
next
  fix pg'
  assume a: "errors (validate L f) = [] \<and> on_submit L cl cfg e f pg = Some pg'"
  then obtain r where
    "insert_submission cl cfg (build_payload e f (validate L f)) (io_log pg) = Some (r, io_log pg')"
    using on_submit_accepted by blast
  then show "\<exists>polls. io_log pg' = io_log pg @ ExecuteStatement
            (sql_request cfg (insert_statement cfg) (build_payload e f (validate L f))) # polls
          \<and> list_all is_poll polls"
    by (rule insert_submission_log)
qed

text \<open>
  Claim C10. For a submission that passes validation and whose handler returns, the
  one request handed to the warehouse binds facility name, inspector name, equipment
  id, location, issues and follow-up actions to the trimmed raw inputs, and none of
  these values starts or ends with whitespace.
\<close>
theorem payload_text_is_trimmed:
  assumes "errors (validate L f) = []" and "on_submit L cl cfg e f pg = Some pg'"
  shows "\<exists>q. sent_requests (io_log pg') = sent_requests (io_log pg) @ [q]
     \<and> map_of (req_parameters q) ''facility_name'' = Some (strip (facility_name f))
     \<and> map_of (req_parameters q) ''nurse_name'' = Some (strip (nurse_name f))
     \<and> map_of (req_parameters q) ''machine_id'' = Some (strip (machine_id f))
     \<and> map_of (req_parameters q) ''room_location'' = Some (strip (room_location f))
     \<and> map_of (req_parameters q) ''issues_noted'' = Some (strip (issues_noted f))
     \<and> map_of (req_parameters q) ''follow_up_actions'' = Some (strip (follow_up_actions f))
     \<and> list_all trimmed (map (bound (req_parameters q))
          [''facility_name'', ''nurse_name'', ''machine_id'', ''room_location'', ''issues_noted'',
           ''follow_up_actions''])"
proof -
  from on_submit_accepted[OF assms] obtain r where
    "insert_submission cl cfg (build_payload e f (validate L f)) (io_log pg) = Some (r, io_log pg')"
    by blast
  from insert_submission_sent[OF this] show ?thesis
    by (simp add: sql_request_def map_of_payload bound_payload trimmed_strip)
qed

text \<open>The sample form with follow-up required and no actions: one error, no call.\<close>
theorem validation_guards_insert_witness:
  "errors (validate sample_lib (sample_form\<lparr>follow_up_required := True\<rparr>))
     = [''Provide follow-up actions when follow-up is marked as required.'']
   \<and> on_submit sample_lib (prompt_client []) sample_config None
        (sample_form\<lparr>follow_up_required := True\<rparr>) sample_page
     = Some (sample_page\<lparr>ui := [StError ''Provide follow-up actions when follow-up is marked as required.'']\<rparr>)
   \<and> io_log (sample_page\<lparr>ui := [StError ''Provide follow-up actions when follow-up is marked as required.'']\<rparr>) = []"
proof -
  have e: "errors (validate sample_lib (sample_form\<lparr>follow_up_required := True\<rparr>))
     = [''Provide follow-up actions when follow-up is marked as required.'']"
    by (simp add: errors_cases sample_form_def run_strings run_numbers sample_dates)
  show ?thesis
    using validation_guards_insert [of sample_lib "sample_form\<lparr>follow_up_required := True\<rparr>"
        "prompt_client []" sample_config None sample_page]
    by (simp add: e sample_page_def)
qed

lemma sample_form_valid: "errors (validate sample_lib sample_form) = []"
  by (simp add: errors_cases sample_form_def run_strings run_numbers sample_dates)

text \<open>The sample form, whose equipment id is typed with blanks around it.\<close>
theorem payload_text_is_trimmed_witness:
  "errors (validate sample_lib sample_form) = []
   \<and> on_submit sample_lib (prompt_client []) sample_config None sample_form sample_page
       = Some \<lparr>io_log = [ExecuteStatement (sql_request sample_config (insert_statement sample_config)
                   (build_payload None sample_form (validate sample_lib sample_form)))],
               ui = [StSuccess ''Inspection submitted successfully.''],
               session_submitted_at = True\<rparr>
   \<and> machine_id sample_form = '' FX-2041 ''
   \<and> (\<exists>q. sent_requests [ExecuteStatement (sql_request sample_config (insert_statement sample_config)
                   (build_payload None sample_form (validate sample_lib sample_form)))]
            = sent_requests (io_log sample_page) @ [q]
        \<and> map_of (req_parameters q) ''machine_id'' = Some ''FX-2041''
        \<and> map_of (req_parameters q) ''facility_name'' = Some ''Sydney Processing Centre'')"
proof -
  have s: "on_submit sample_lib (prompt_client []) sample_config None sample_form sample_page
       = Some \<lparr>io_log = [ExecuteStatement (sql_request sample_config (insert_statement sample_config)
                   (build_payload None sample_form (validate sample_lib sample_form)))],
               ui = [StSuccess ''Inspection submitted successfully.''],
               session_submitted_at = True\<rparr>"
    by (simp add: on_submit_def sample_form_valid insert_prompt sample_page_def)
  have t: "strip '' FX-2041 '' = ''FX-2041''" "strip ''Sydney Processing Centre'' = ''Sydney Processing Centre''"
    by (simp_all add: run_strings)
  from payload_text_is_trimmed[OF sample_form_valid s] obtain q where
    q: "sent_requests [ExecuteStatement (sql_request sample_config (insert_statement sample_config)
                   (build_payload None sample_form (validate sample_lib sample_form)))]
            = sent_requests (io_log sample_page) @ [q]"
       "map_of (req_parameters q) ''machine_id'' = Some (strip (machine_id sample_form))"
       "map_of (req_parameters q) ''facility_name'' = Some (strip (facility_name sample_form))"
    by auto
  have "map_of (req_parameters q) ''machine_id'' = Some ''FX-2041''"
    "map_of (req_parameters q) ''facility_name'' = Some ''Sydney Processing Centre''"
    using q(2,3) by (simp_all add: sample_form_def t)
  with q(1) sample_form_valid s show ?thesis
    by (auto simp: sample_form_def)
qed

section \<open>Properties of the recent submissions\<close>

lemma broken_chunk_execute:
  "execute_sql broken_chunk_client cfg statement [] log =
     Some (Inr (Some ''s1'',
        \<lparr>resp_manifest = Some recent_manifest, resp_result = None, resp_statement_id = Some ''s1'',
         resp_status = Some \<lparr>status_error = None, status_state = Some SUCCEEDED\<rparr>\<rparr>),
       log @ [ExecuteStatement (sql_request cfg statement []), GetStatement (Some ''s1''),
              GetStatement (Some ''s1'')])"
  unfolding execute_sql_def Let_def
  apply (simp add: broken_chunk_client_def)
  apply (subst poll_statement.simps)
  apply (simp add: still_running_def)
  apply (subst poll_statement.simps)
  apply (simp add: still_running_def)
  apply (subst poll_statement.simps)
  apply (simp add: still_running_def succeeded_def)
  done

text \<open>
  Claim C6 says that \<open>fetch_recent_submissions\<close> never lets an execution error
  escape. It does hold for a failure inside \<open>execute_sql\<close>
  (\<open>fetch_recent_unavailable\<close> below), and an empty table gives an empty frame, not
  \<open>None\<close> (\<open>fetch_recent_empty\<close>). But the call that fetches the first chunk of the
  result is made outside the \<open>try\<close>: with a warehouse that delivers no rows with the
  response and fails on that call, the error leaves the function.
\<close>
theorem fetch_recent_raises_on_chunk_failure:
  "fetch_recent_submissions broken_chunk_client sample_config None []
     = Some (Inl (SdkError ''connection reset''),
         [ExecuteStatement (sql_request sample_config (fetch_query sample_config 20) []),
          GetStatement (Some ''s1''), GetStatement (Some ''s1''),
          GetStatementResultChunkN (Some ''s1'') 0])"
  by (simp add: fetch_recent_submissions_def broken_chunk_execute inline_data_def default_limit_def)
    (simp add: broken_chunk_client_def)

lemma fetch_recent_chunk_failure:
  assumes "execute_sql cl cfg
      (fetch_query cfg (case limit_arg of None \<Rightarrow> default_limit | Some n \<Rightarrow> n)) [] log
      = Some (Inr (sid, response), log1)"
    and "inline_data response = None"
    and "get_statement_result_chunk_n cl sid 0 = Inl e"
  shows "fetch_recent_submissions cl cfg limit_arg log
      = Some (Inl e, log1 @ [GetStatementResultChunkN sid 0])"
  using assms by (simp add: fetch_recent_submissions_def Let_def)

lemma fetch_recent_unavailable:
  "execute_sql cl cfg (fetch_query cfg (case limit_arg of None \<Rightarrow> default_limit | Some n \<Rightarrow> n)) [] log
     = Some (Inl e, log1) \<Longrightarrow>
   fetch_recent_submissions cl cfg limit_arg log = Some (Inr None, log1)"
  by (simp add: fetch_recent_submissions_def Let_def)

lemma fetch_recent_unreachable:
  "fetch_recent_submissions unreachable_client cfg limit_arg log
     = Some (Inr None, log @ [ExecuteStatement (sql_request cfg
          (fetch_query cfg (case limit_arg of None \<Rightarrow> default_limit | Some n \<Rightarrow> n)) [])])"
  by (rule fetch_recent_unavailable) (simp add: execute_sql_def Let_def unreachable_client_def)


lemma or_empty_Some: "or_empty (Some s) = s"
  by (simp add: or_empty_def truthy_def)

lemma manifest_columns_recent:
  "resp_manifest R = Some recent_manifest \<Longrightarrow> manifest_columns R = recent_columns"
  by (simp add: manifest_columns_def recent_manifest_def or_empty_Some comp_def)

lemma fold_max_const:
  "xs \<noteq> [] \<Longrightarrow> (\<And>x. x \<in> set xs \<Longrightarrow> x = k) \<Longrightarrow> fold max xs (a::nat) = max a k"
proof (induction xs arbitrary: a)
  case Nil
  then show ?case by simp
next
  case (Cons x xs)
  have x: "x = k" using Cons.prems(2) by simp
  show ?case
  proof (cases "xs = []")
    case True
    then show ?thesis by (simp add: x)
  next
    case False
    have "fold max xs (max x a) = max (max x a) k"
      using False Cons.prems(2) by (intro Cons.IH) auto
    then show ?thesis by (simp add: x max.commute max.left_commute)
  qed
qed

lemma length_render_recent: "length (render_recent ts r) = 8"
  by (simp add: render_recent_def)

lemma make_dataframe_rendered:
  "make_dataframe (map (render_recent ts) rows) recent_columns
     = Inr \<lparr>df_columns = recent_columns, df_rows = map (render_recent ts) rows\<rparr>"
proof (cases "rows = []")
  case True
  then show ?thesis by (simp add: make_dataframe_def)
next
  case False
  have "fold max (map (length \<circ> render_recent ts) rows) 0 = max 0 8"
    using False by (intro fold_max_const) (auto simp: length_render_recent)
  then have w: "fold max (map (length \<circ> render_recent ts) rows) 0 = 8" by simp
  have c: "length recent_columns = 8" by (simp add: recent_columns_def)
  show ?thesis
    using False by (simp add: make_dataframe_def w c length_render_recent)
qed

lemma select_recent_sorted:
  assumes "select_recent tbl limit = Inr rows"
  shows "sorted_wrt (\<lambda>a b. b \<le> a) (map rec_submitted_at rows)"
proof -
  let ?xs = "order_by_submitted_at_desc tbl"
  from assms have rows: "rows = take (nat limit) (map project_recent ?xs)"
    by (auto simp: select_recent_def split: if_splits)
  have m: "map rec_submitted_at (map project_recent ?xs) = map col_submitted_at ?xs"
    by (simp add: project_recent_def comp_def)
  have "sorted (map col_submitted_at (sort_key col_submitted_at tbl))" by (rule sorted_sort_key)
  then have "sorted_wrt (\<lambda>a b. b \<le> a) (rev (map col_submitted_at (sort_key col_submitted_at tbl)))"
    by (simp add: sorted_wrt_rev)
  then have "sorted_wrt (\<lambda>a b. b \<le> a) (map col_submitted_at ?xs)"
    by (simp add: order_by_submitted_at_desc_def rev_map)
  then have "sorted_wrt (\<lambda>a b. b \<le> a) (take (nat limit) (map col_submitted_at ?xs))"
    by (rule sorted_wrt_take)
  then show ?thesis by (simp add: rows take_map m[symmetric])
qed

lemma select_recent_length:
  assumes "select_recent tbl limit = Inr rows"
  shows "int (length rows) \<le> limit" "length rows \<le> length tbl"
  using assms by (auto simp: select_recent_def order_by_submitted_at_desc_def split: if_splits)

lemma select_recent_rows:
  assumes "select_recent tbl limit = Inr rows"
  shows "set rows \<subseteq> project_recent ` set tbl"
proof -
  from assms have "rows = take (nat limit) (map project_recent (order_by_submitted_at_desc tbl))"
    by (auto simp: select_recent_def split: if_splits)
  then have "set rows \<subseteq> set (map project_recent (order_by_submitted_at_desc tbl))"
    by (simp only: set_take_subset)
  then show ?thesis by (simp add: order_by_submitted_at_desc_def)
qed

text \<open>
  Claim C7. Let the warehouse answer the query of \<open>fetch_recent_submissions\<close> for the
  given limit (20 when none is given) with the rows that the query selects from its
  table. Then the function returns a data frame with the eight columns of the
  projection and these rows: at most \<open>limit\<close> of them, ordered by \<open>submitted_at\<close>
  from the latest to the earliest, each the projection of a row of the table. The text
  of the query selects the eight columns and no other, orders by \<open>submitted_at\<close>
  descending and ends with the limit.
\<close>
theorem fetch_recent_limit_order_projection:
  assumes sel: "select_recent tbl (case limit_arg of None \<Rightarrow> default_limit | Some n \<Rightarrow> n) = Inr rows"
    and ans: "execute_statement cl
        (sql_request cfg (fetch_query cfg (case limit_arg of None \<Rightarrow> default_limit | Some n \<Rightarrow> n)) [])
        = Inr \<lparr>resp_manifest = Some recent_manifest,
               resp_result = Some \<lparr>data_array = Some (map (render_recent ts) rows)\<rparr>,
               resp_statement_id = sid,
               resp_status = Some succeeded_status\<rparr>"
    and chunk: "get_statement_result_chunk_n cl sid 0
        = Inr \<lparr>data_array = Some (map (render_recent ts) rows)\<rparr>"
  shows "\<exists>df log'. fetch_recent_submissions cl cfg limit_arg log = Some (Inr (Some df), log')
     \<and> df_columns df = recent_columns
     \<and> length (df_columns df) = 8
     \<and> df_rows df = map (render_recent ts) rows
     \<and> int (length (df_rows df)) \<le> (case limit_arg of None \<Rightarrow> default_limit | Some n \<Rightarrow> n)
     \<and> sorted_wrt (\<lambda>a b. b \<le> a) (map rec_submitted_at rows)
     \<and> set rows \<subseteq> project_recent ` set tbl
     \<and> default_limit = 20
     \<and> fetch_query cfg (case limit_arg of None \<Rightarrow> default_limit | Some n \<Rightarrow> n)
         = sql_text (''        SELECT'' # select_lines recent_columns
             @ [''        FROM '' @ table_path cfg,
                ''        ORDER BY submitted_at DESC'',
                ''        LIMIT '' @ show_int (case limit_arg of None \<Rightarrow> default_limit | Some n \<Rightarrow> n),
                ''    ''])"
proof -
  let ?limit = "case limit_arg of None \<Rightarrow> default_limit | Some n \<Rightarrow> n"
  let ?R = "\<lparr>resp_manifest = Some recent_manifest,
               resp_result = Some \<lparr>data_array = Some (map (render_recent ts) rows)\<rparr>,
               resp_statement_id = sid,
               resp_status = Some succeeded_status\<rparr>"
  let ?log1 = "log @ [ExecuteStatement (sql_request cfg (fetch_query cfg ?limit) [])]"
  let ?df = "\<lparr>df_columns = recent_columns, df_rows = map (render_recent ts) rows\<rparr>"
  have fin: "\<not> still_running (resp_status ?R)" "succeeded (resp_status ?R)"
    by (simp_all add: still_running_def succeeded_def succeeded_status_def)
  have ex: "execute_sql cl cfg (fetch_query cfg ?limit) [] log = Some (Inr (sid, ?R), ?log1)"
    using fin by (simp add: execute_sql_def Let_def ans poll_statement_done)
  have cols: "manifest_columns ?R = recent_columns"
    by (rule manifest_columns_recent) simp
  have "\<exists>log'. fetch_recent_submissions cl cfg limit_arg log = Some (Inr (Some ?df), log')"
  proof (cases "rows = []")
    case True
    then show ?thesis
      using chunk
      by (simp add: fetch_recent_submissions_def Let_def ex manifest_columns_recent
          inline_data_def make_dataframe_def)
  next
    case False
    then have "inline_data ?R = Some (map (render_recent ts) rows)"
      by (simp add: inline_data_def)
    then show ?thesis
      by (simp add: fetch_recent_submissions_def Let_def ex cols
          make_dataframe_rendered)
  qed
  moreover have "length recent_columns = 8" "default_limit = 20"
    by (simp_all add: recent_columns_def default_limit_def)
  moreover have "fetch_query cfg ?limit
         = sql_text (''        SELECT'' # select_lines recent_columns
             @ [''        FROM '' @ table_path cfg,
                ''        ORDER BY submitted_at DESC'',
                ''        LIMIT '' @ show_int ?limit,
                ''    ''])"
    by (simp add: fetch_query_def recent_columns_def)
  moreover note select_recent_length(1)[OF sel] select_recent_sorted[OF sel] select_recent_rows[OF sel]
  ultimately show ?thesis by auto
qed

lemma select_sample_recent: "select_recent sample_table 2 = Inr sample_recent"
  by (simp add: select_recent_def order_by_submitted_at_desc_def sample_table_def sample_recent_def
      project_recent_def)

text \<open>The sample table of three rows and a limit of two.\<close>
theorem fetch_recent_limit_order_projection_witness:
  "select_recent sample_table 2 = Inr sample_recent
   \<and> (\<exists>df log'. fetch_recent_submissions (prompt_client (map (render_recent show_nat) sample_recent))
          sample_config (Some 2) [] = Some (Inr (Some df), log')
        \<and> df_columns df = recent_columns
        \<and> df_rows df = map (render_recent show_nat) sample_recent
        \<and> int (length (df_rows df)) \<le> 2
        \<and> sorted_wrt (\<lambda>a b. b \<le> a) (map rec_submitted_at sample_recent))
   \<and> map rec_submitted_at sample_recent = [Some 30, Some 10]
   \<and> length sample_table = 3"
proof -
  have a: "select_recent sample_table (case Some 2 of None \<Rightarrow> default_limit | Some n \<Rightarrow> n) = Inr sample_recent"
    by (simp add: select_sample_recent)
  have b: "execute_statement (prompt_client (map (render_recent show_nat) sample_recent))
        (sql_request sample_config
           (fetch_query sample_config (case Some 2 of None \<Rightarrow> default_limit | Some n \<Rightarrow> n)) [])
        = Inr \<lparr>resp_manifest = Some recent_manifest,
               resp_result = Some \<lparr>data_array = Some (map (render_recent show_nat) sample_recent)\<rparr>,
               resp_statement_id = Some ''s1'',
               resp_status = Some succeeded_status\<rparr>"
    by (simp add: prompt_client_def)
  have c: "get_statement_result_chunk_n (prompt_client (map (render_recent show_nat) sample_recent))
        (Some ''s1'') 0 = Inr \<lparr>data_array = Some (map (render_recent show_nat) sample_recent)\<rparr>"
    by (simp add: prompt_client_def)
  have d: "map rec_submitted_at sample_recent = [Some 30, Some 10]" "length sample_table = 3"
    by (simp_all add: sample_recent_def sample_table_def)
  from fetch_recent_limit_order_projection[OF a b c, of "[]"] select_sample_recent d
  show ?thesis by auto
qed

lemma fetch_recent_empty:
  "fetch_recent_submissions (prompt_client []) cfg limit_arg log
     = Some (Inr (Some \<lparr>df_columns = recent_columns, df_rows = []\<rparr>),
         log @ [ExecuteStatement (sql_request cfg
                  (fetch_query cfg (case limit_arg of None \<Rightarrow> default_limit | Some n \<Rightarrow> n)) []),
                GetStatementResultChunkN (Some ''s1'') 0])"
proof -
  have ch: "get_statement_result_chunk_n (prompt_client []) (Some ''s1'') 0 = Inr \<lparr>data_array = Some []\<rparr>"
    by (simp add: prompt_client_def)
  have ex: "execute_sql (prompt_client []) cfg
          (fetch_query cfg (case limit_arg of None \<Rightarrow> default_limit | Some n \<Rightarrow> n)) [] log
        = Some (Inr (Some ''s1'', \<lparr>resp_manifest = Some recent_manifest,
              resp_result = Some \<lparr>data_array = Some []\<rparr>,
              resp_statement_id = Some ''s1'', resp_status = Some succeeded_status\<rparr>),
            log @ [ExecuteStatement (sql_request cfg
                  (fetch_query cfg (case limit_arg of None \<Rightarrow> default_limit | Some n \<Rightarrow> n)) [])])"
    by (simp add: execute_sql_def Let_def prompt_client_def poll_statement_done still_running_def
        succeeded_def succeeded_status_def)
  show ?thesis
    by (simp add: fetch_recent_submissions_def Let_def ex ch manifest_columns_recent inline_data_def
        make_dataframe_def)
qed

end
